theory Spec2Isabelle
  imports Main "HOL-Library.Word"
begin

section \<open>JavaScript values and errors\<close>

text \<open>
  A JavaScript string is modelled by its UTF-8 encoding: a \<open>string\<close> is the list of the
  bytes of the text, so that text outside ASCII is several \<open>char\<close>s per code point
  (U+00A0 is \<open>[CHR 0xC2, CHR 0xA0]\<close>). Every string the program handles comes from a
  file that Node decodes from UTF-8, or from a literal of the source; concatenation, equality
  and emptiness are the same on the encoding as on the string.
\<close>

text \<open>
  The values that flow through \<^verbatim>\<open>Main.js\<close>: the fields of the session payload are
  whatever the server's JSON holds, so they are dynamically typed. Numbers are restricted
  to integers here; objects and arrays do not occur in the fields the program reads.
\<close>

datatype jsval = JUndefined | JNull | JBool bool | JNum int | JStr string

text \<open>Truthiness, as used by \<^verbatim>\<open>a || b\<close>, \<^verbatim>\<open>if (proxy)\<close> and \<^verbatim>\<open>!!proxy\<close>.\<close>

fun truthy :: "jsval \<Rightarrow> bool" where
  "truthy JUndefined = False"
| "truthy JNull = False"
| "truthy (JBool b) = b"
| "truthy (JNum n) = (n \<noteq> 0)"
| "truthy (JStr s) = (s \<noteq> [])"

text \<open>
  A thrown value or the reason of a rejected promise. \<open>Error m\<close> is
  \<^verbatim>\<open>new Error(m)\<close>; \<open>TypeError m\<close> stands for the errors of the engine and of
  the libraries (reading a property of \<^verbatim>\<open>null\<close> or \<^verbatim>\<open>undefined\<close>, an invalid
  URL), with \<open>m\<close> naming the cause.
\<close>

datatype error = Error string | TypeError string

text \<open>
  The result of \<^verbatim>\<open>parseInt\<close>: \<^verbatim>\<open>NaN\<close>, or a sign (\<open>True\<close> for minus, so
  that \<open>Num True (Finite 0)\<close> is the negative zero) and a magnitude that is a natural
  number or infinite.
\<close>

datatype magnitude = Finite nat | Infinity

datatype jsnumber = NaN | Num bool magnitude

section \<open>Configuration (class Config, lines 16-24)\<close>

record config =
  baseURL :: string
  ipCheckURL :: string
  pingURL :: string
  retryInterval :: nat
  sessionURL :: string

definition Config :: config where
  "Config = \<lparr> baseURL = ''https://nodepay.org'',
              ipCheckURL = ''https://ipinfo.io/json'',
              pingURL = ''http://13.215.134.222/api/network/ping'',
              retryInterval = 30000,
              sessionURL = ''http://api.nodepay.ai/api/auth/session'' \<rparr>"

section \<open>The library functions the program calls\<close>

text \<open>
  \<^verbatim>\<open>url.parse\<close> (Node's legacy URL parser) and the constructor of
  \<^verbatim>\<open>SocksProxyAgent\<close> are not code of this repository. They are parameters of the
  model: every theorem below holds for any behaviour of the two. \<^verbatim>\<open>url.parse\<close>
  either throws (\<open>Inl\<close>; Node does so on a host name it cannot convert and on an
  undecodable user part) or returns an object, of which the program reads
  \<^verbatim>\<open>protocol\<close>, \<^verbatim>\<open>hostname\<close> and \<^verbatim>\<open>port\<close>; each is a string or
  \<^verbatim>\<open>null\<close> (\<open>None\<close>). The constructor either returns an agent built from the
  proxy string (\<open>None\<close>) or throws (\<open>Some e\<close>).

  The third parameter is the engine's rounding in \<^verbatim>\<open>parseInt\<close>: the magnitude of the
  number it returns for a run of decimal digits whose value is \<open>2^53\<close> or more, where a
  JavaScript number no longer holds every integer (and where, from 21 digits on, the
  language leaves the digits read to the implementation).
\<close>

record urlObject =
  url_protocol :: "string option"
  url_hostname :: "string option"
  url_port :: "string option"

record env =
  url_parse :: "string \<Rightarrow> error + urlObject"
  newSocksProxyAgent :: "string \<Rightarrow> error option"
  parseInt_large :: "string \<Rightarrow> magnitude"

section \<open>String helpers\<close>

text \<open>
  The white space that \<^verbatim>\<open>String.prototype.trim\<close> strips and that \<^verbatim>\<open>parseInt\<close>
  skips, each code point in UTF-8: TAB, LF, VT, FF, CR and the space; U+00A0; U+1680;
  U+2000 to U+200A; the line and paragraph separators U+2028 and U+2029; U+202F; U+205F;
  U+3000; and U+FEFF.
\<close>

definition ws_seqs :: "string list" where
  "ws_seqs =
     [[CHR 0x09], [CHR 0x0A], [CHR 0x0B], [CHR 0x0C], [CHR 0x0D], [CHR 0x20],
      [CHR 0xC2, CHR 0xA0],
      [CHR 0xE1, CHR 0x9A, CHR 0x80],
      [CHR 0xE2, CHR 0x80, CHR 0x80], [CHR 0xE2, CHR 0x80, CHR 0x81],
      [CHR 0xE2, CHR 0x80, CHR 0x82], [CHR 0xE2, CHR 0x80, CHR 0x83],
      [CHR 0xE2, CHR 0x80, CHR 0x84], [CHR 0xE2, CHR 0x80, CHR 0x85],
      [CHR 0xE2, CHR 0x80, CHR 0x86], [CHR 0xE2, CHR 0x80, CHR 0x87],
      [CHR 0xE2, CHR 0x80, CHR 0x88], [CHR 0xE2, CHR 0x80, CHR 0x89],
      [CHR 0xE2, CHR 0x80, CHR 0x8A],
      [CHR 0xE2, CHR 0x80, CHR 0xA8], [CHR 0xE2, CHR 0x80, CHR 0xA9],
      [CHR 0xE2, CHR 0x80, CHR 0xAF],
      [CHR 0xE2, CHR 0x81, CHR 0x9F],
      [CHR 0xE3, CHR 0x80, CHR 0x80],
      [CHR 0xEF, CHR 0xBB, CHR 0xBF]]"

text \<open>
  The number of bytes of the sequence of \<open>seqs\<close> that \<open>s\<close> starts with, \<open>0\<close> if it
  starts with none; \<open>skip_seqs\<close> removes such sequences from the front of \<open>s\<close> until
  none is left. At the end of a string the same is done on the reversed string with the
  reversed sequences: in UTF-8 a suffix that reads as a code point is that code point.
\<close>

definition ws_len :: "string list \<Rightarrow> string \<Rightarrow> nat" where
  "ws_len seqs s =
     (case List.find (\<lambda>q. take (length q) s = q) seqs of None \<Rightarrow> 0 | Some q \<Rightarrow> length q)"

function skip_seqs :: "string list \<Rightarrow> string \<Rightarrow> string" where
  "skip_seqs seqs s = (if ws_len seqs s = 0 then s else skip_seqs seqs (drop (ws_len seqs s) s))"
  by pat_completeness auto
termination
proof (relation "measure (\<lambda>(seqs, s). length s)")
  show "wf (measure (\<lambda>(seqs, s). length s))" by simp
next
  fix seqs :: "string list" and s :: string
  assume n: "ws_len seqs s \<noteq> 0"
  then obtain q where "take (length q) s = q" and "length q \<noteq> 0"
    by (auto simp: ws_len_def find_Some_iff split: option.splits)
  then have "s \<noteq> []" by auto
  then show "((seqs, drop (ws_len seqs s) s), (seqs, s)) \<in> measure (\<lambda>(seqs, s). length s)"
    using n by simp
qed

declare skip_seqs.simps [simp del]

definition trim :: "string \<Rightarrow> string" where
  "trim s = rev (skip_seqs (map rev ws_seqs) (rev (skip_seqs ws_seqs s)))"

text \<open>
  A printable ASCII character other than the space: no white-space sequence starts or
  ends with one.
\<close>

definition printable :: "char \<Rightarrow> bool" where
  "printable c = (33 \<le> (of_char c :: nat) \<and> (of_char c :: nat) \<le> 126)"

definition is_digit :: "char \<Rightarrow> bool" where
  "is_digit c = (48 \<le> (of_char c :: nat) \<and> (of_char c :: nat) \<le> 57)"

definition digit_val :: "char \<Rightarrow> nat" where
  "digit_val c = of_char c - 48"

definition dec_val :: "string \<Rightarrow> nat" where
  "dec_val ds = foldl (\<lambda>acc c. 10 * acc + digit_val c) 0 ds"

text \<open>
  \<^verbatim>\<open>parseInt(s, 10)\<close> on a string: leading white space is skipped, one sign is read,
  then the longest run of decimal digits; no digit gives \<^verbatim>\<open>NaN\<close>. The digits give
  their exact value below \<open>2^53 = 9007199254740992\<close>, and the engine's rounding of it
  from there on.
\<close>

definition parseInt10 :: "env \<Rightarrow> string \<Rightarrow> jsnumber" where
  "parseInt10 e s =
     (let s1 = skip_seqs ws_seqs s;
          neg = (s1 \<noteq> [] \<and> hd s1 = CHR ''-'');
          s2 = (if s1 \<noteq> [] \<and> (hd s1 = CHR ''-'' \<or> hd s1 = CHR ''+'') then tl s1 else s1);
          ds = takeWhile is_digit s2
      in if ds = [] then NaN
         else Num neg (if dec_val ds < 9007199254740992 then Finite (dec_val ds)
                       else parseInt_large e ds))"

text \<open>
  \<^verbatim>\<open>parseInt(proxyUrl.port, 10)\<close>: a \<^verbatim>\<open>null\<close> port is first converted to the
  string \<^verbatim>\<open>"null"\<close>, which has no digit.
\<close>

definition parseInt :: "env \<Rightarrow> string option \<Rightarrow> jsnumber" where
  "parseInt e v = (case v of None \<Rightarrow> parseInt10 e ''null'' | Some s \<Rightarrow> parseInt10 e s)"

text \<open>\<^verbatim>\<open>buf.toString('hex')\<close>: two lower-case hexadecimal digits per byte.\<close>

definition hex_digit :: "nat \<Rightarrow> char" where
  "hex_digit n = ''0123456789abcdef'' ! (n mod 16)"

definition hex_byte :: "8 word \<Rightarrow> string" where
  "hex_byte b = [hex_digit (unat b div 16), hex_digit (unat b mod 16)]"

definition toString_hex :: "8 word list \<Rightarrow> string" where
  "toString_hex bs = concat (map hex_byte bs)"

section \<open>ProxyChecker.buildProxyConfig (lines 63-75)\<close>

text \<open>
  The three things the function returns: the plain object of the \<^verbatim>\<open>http:\<close> branch,
  whose \<open>port\<close> is what \<^verbatim>\<open>parseInt\<close> gives; the agent of the \<^verbatim>\<open>socks5:\<close>
  branch, built from the whole proxy string; and \<^verbatim>\<open>null\<close>. A throw of
  \<^verbatim>\<open>url.parse\<close> at line 64, or of the constructor at line 72, leaves the function.
\<close>

record httpProxy =
  host :: "string option"
  port :: jsnumber
  protocol :: string

datatype proxyConfig = HttpProxy httpProxy | SocksProxyAgent string | Null

definition buildProxyConfig :: "env \<Rightarrow> string \<Rightarrow> error + proxyConfig" where
  "buildProxyConfig e proxy =
     (case url_parse e proxy of
        Inl err \<Rightarrow> Inl err
      | Inr proxyUrl \<Rightarrow>
          if url_protocol proxyUrl = Some ''http:'' then
            Inr (HttpProxy \<lparr> host = url_hostname proxyUrl,
                             port = parseInt e (url_port proxyUrl),
                             protocol = ''http'' \<rparr>)
          else if url_protocol proxyUrl = Some ''socks5:'' then
            (case newSocksProxyAgent e proxy of
               Some err \<Rightarrow> Inl err
             | None \<Rightarrow> Inr (SocksProxyAgent proxy))
          else Inr Null)"

section \<open>Requests, log records and the world\<close>

record accountInfo =
  uid :: jsval
  name :: jsval
  browser_id :: jsval

text \<open>
  The heartbeat body of lines 140-145; the JSON keys are \<^verbatim>\<open>id\<close>,
  \<^verbatim>\<open>browser_id\<close>, \<^verbatim>\<open>timestamp\<close> and \<^verbatim>\<open>version\<close>.
\<close>

record pingData =
  ping_id :: jsval
  ping_browser_id :: jsval
  ping_timestamp :: int
  ping_version :: string

datatype body = EmptyObject | PingBody pingData

text \<open>
  The third argument of \<^verbatim>\<open>axios.post\<close>. \<open>httpAgent = None\<close> is a config without the
  property (the proxy string was empty); \<open>Some Null\<close> is the property set to
  \<^verbatim>\<open>null\<close>.
\<close>

record reqConfig =
  headers :: "(string \<times> string) list"
  httpAgent :: "proxyConfig option"

definition mkHeaders :: "string \<Rightarrow> string \<Rightarrow> (string \<times> string) list" where
  "mkHeaders token userAgent =
     [(''Authorization'', ''Bearer '' @ token),
      (''Content-Type'', ''application/json''),
      (''User-Agent'', userAgent),
      (''Accept'', ''application/json'')]"

text \<open>
  The score strings of line 169 are \<^verbatim>\<open>Good\<close> and \<^verbatim>\<open>Slow\<close>, each behind a
  check-mark symbol.
\<close>

datatype score = Good | Slow

text \<open>
  What the program prints, one constructor per \<^verbatim>\<open>console.log\<close> call of the modelled
  lines (colours left out), and what it hands to the winston logger.
\<close>

datatype console_msg =
    NoTokensFound
  | NoProxiesFound
  | Connected jsval
  | Rejected error
  | PingSendError error
  | PingSent jsval
  | ProxyUsed string int score
  | ErrorWithProxy error
  | MainCaught error

datatype log_record =
    SessionInformation jsval jsval bool
  | PingSentRecord jsval jsval jsval int score
  | RejectedRecord error string
  | ProxyErrorRecord error string
  | PingErrorRecord error

datatype event =
    AxiosPost string body reqConfig
  | ConsoleLog console_msg
  | LoggerInfo log_record
  | LoggerError log_record
  | ProcessOnSIGINT

text \<open>
  The variables the timer callback of line 98 closes over, and the timer that
  \<^verbatim>\<open>setInterval\<close> creates: its period, the nominal time of its last firing counted
  from its creation, and whether \<^verbatim>\<open>clearInterval\<close> was called on it.
\<close>

record closure =
  cl_accountInfo :: accountInfo
  cl_token :: string
  cl_userAgent :: string
  cl_proxy :: string

record timer =
  delay :: nat
  elapsed :: nat
  cleared :: bool
  callback :: closure

text \<open>
  The world as one task sees it: the bytes \<^verbatim>\<open>crypto.randomBytes\<close> will deliver and
  how many were taken, the successive readings of \<^verbatim>\<open>Date.now()\<close> in milliseconds
  and how many were taken, the effects so far, and the task's interval timer.
\<close>

record world =
  rand :: "nat \<Rightarrow> 8 word"
  rpos :: nat
  clock :: "nat \<Rightarrow> int"
  cpos :: nat
  trace :: "event list"
  interval :: "timer option"

definition emit :: "event list \<Rightarrow> world \<Rightarrow> world" where
  "emit evs w = w\<lparr> trace := trace w @ evs \<rparr>"

definition randomBytes :: "nat \<Rightarrow> world \<Rightarrow> 8 word list \<times> world" where
  "randomBytes n w = (map (rand w) [rpos w ..< rpos w + n], w\<lparr> rpos := rpos w + n \<rparr>)"

definition Date_now :: "world \<Rightarrow> int \<times> world" where
  "Date_now w = (clock w (cpos w), w\<lparr> cpos := cpos w + 1 \<rparr>)"

text \<open>
  \<^verbatim>\<open>v || crypto.randomBytes(8).toString('hex')\<close>: the right operand is evaluated, and
  random bytes are taken, only when \<open>v\<close> is falsy.
\<close>

definition or_randomHex :: "jsval \<Rightarrow> world \<Rightarrow> jsval \<times> world" where
  "or_randomHex v w =
     (if truthy v then (v, w)
      else (case randomBytes 8 w of (bs, w') \<Rightarrow> (JStr (toString_hex bs), w')))"

text \<open>
  The outcomes of the two requests. The session request is rejected by axios, or it is
  answered with a body that is \<^verbatim>\<open>null\<close> or \<^verbatim>\<open>undefined\<close>, or with a body whose
  \<^verbatim>\<open>data\<close> property is \<^verbatim>\<open>null\<close> or \<^verbatim>\<open>undefined\<close> (\<open>SessionData None\<close>) or
  is a value with the fields of \<open>accountInfo\<close> (a field that is missing is
  \<open>JUndefined\<close>). The heartbeat request is rejected or fulfilled.
\<close>

datatype session_reply =
    SessionRejected error
  | SessionBodyNullish
  | SessionData "accountInfo option"

datatype ping_reply = PingRejected error | PingFulfilled

section \<open>Bot.getSession (lines 114-134)\<close>

text \<open>
  \<open>agentFor\<close> is the statement \<^verbatim>\<open>if (proxy) config.httpAgent = buildProxyConfig(proxy)\<close>
  of lines 125-127 and 159-161: the value of the property afterwards, or what was thrown.
\<close>

definition agentFor :: "env \<Rightarrow> string \<Rightarrow> error + proxyConfig option" where
  "agentFor e proxy =
     (if proxy \<noteq> [] then
        (case buildProxyConfig e proxy of Inl err \<Rightarrow> Inl err | Inr c \<Rightarrow> Inr (Some c))
      else Inr None)"

definition getSession_try ::
  "env \<Rightarrow> config \<Rightarrow> string \<Rightarrow> string \<Rightarrow> string \<Rightarrow> session_reply \<Rightarrow> world
     \<Rightarrow> (error + accountInfo option) \<times> world" where
  "getSession_try e cfg token userAgent proxy reply w =
     (case agentFor e proxy of
        Inl err \<Rightarrow> (Inl err, w)
      | Inr agent \<Rightarrow>
          (let w1 = emit [AxiosPost (sessionURL cfg) EmptyObject
                            \<lparr> headers = mkHeaders token userAgent, httpAgent = agent \<rparr>] w
           in case reply of
                SessionRejected err \<Rightarrow> (Inl err, w1)
              | SessionBodyNullish \<Rightarrow> (Inl (TypeError ''response.data.data''), w1)
              | SessionData d \<Rightarrow> (Inr d, w1)))"

definition getSession ::
  "env \<Rightarrow> config \<Rightarrow> string \<Rightarrow> string \<Rightarrow> string \<Rightarrow> session_reply \<Rightarrow> world
     \<Rightarrow> (error + accountInfo option) \<times> world" where
  "getSession e cfg token userAgent proxy reply w =
     (case getSession_try e cfg token userAgent proxy reply w of
        (Inl err, w1) \<Rightarrow> (Inl (Error ''Session request failed''), w1)
      | (Inr d, w1) \<Rightarrow> (Inr d, w1))"

section \<open>Bot.sendPing (lines 136-184)\<close>

text \<open>The body of the \<^verbatim>\<open>try\<close> block, lines 150-178.\<close>

definition sendPing_try ::
  "env \<Rightarrow> config \<Rightarrow> jsval \<Rightarrow> jsval \<Rightarrow> pingData \<Rightarrow> int \<Rightarrow> string \<Rightarrow> string \<Rightarrow> string
     \<Rightarrow> ping_reply \<Rightarrow> world \<Rightarrow> (error + unit) \<times> world" where
  "sendPing_try e cfg uid' browserId pd startTime token userAgent proxy reply w =
     (case agentFor e proxy of
        Inl err \<Rightarrow> (Inl err, w)
      | Inr agent \<Rightarrow>
          (let w1 = emit [AxiosPost (pingURL cfg) (PingBody pd)
                            \<lparr> headers = mkHeaders token userAgent, httpAgent = agent \<rparr>] w
           in case reply of
                PingRejected err \<Rightarrow> (Inl err, w1)
              | PingFulfilled \<Rightarrow>
                  (case Date_now w1 of (t, w2) \<Rightarrow>
                     (let pingDuration = t - startTime;
                          proxyInfo = (if proxy \<noteq> [] then ''Proxy IP: undefined'' else ''No proxy'');
                          score = (if pingDuration < 5000 then Good else Slow)
                      in (Inr (),
                          emit [ConsoleLog (PingSent uid'),
                                ConsoleLog (ProxyUsed proxyInfo pingDuration score),
                                LoggerInfo (PingSentRecord uid' browserId
                                  (if proxy \<noteq> [] then JUndefined else JStr ''No proxy'')
                                  pingDuration score)] w2)))))"

definition sendPing ::
  "env \<Rightarrow> config \<Rightarrow> accountInfo \<Rightarrow> string \<Rightarrow> string \<Rightarrow> string \<Rightarrow> ping_reply \<Rightarrow> world
     \<Rightarrow> (error + unit) \<times> world" where
  "sendPing e cfg accountInfo token userAgent proxy reply w =
     (case or_randomHex (uid accountInfo) w of (uid', w1) \<Rightarrow>
      case or_randomHex (browser_id accountInfo) w1 of (browserId, w2) \<Rightarrow>
      case Date_now w2 of (now, w3) \<Rightarrow>
      case Date_now w3 of (startTime, w4) \<Rightarrow>
        (let pd = \<lparr> ping_id = uid', ping_browser_id = browserId,
                    ping_timestamp = now div 1000, ping_version = ''2.2.7'' \<rparr>
         in case sendPing_try e cfg uid' browserId pd startTime token userAgent proxy reply w4 of
              (Inr u, w5) \<Rightarrow> (Inr u, w5)
            | (Inl err, w5) \<Rightarrow>
                (Inr (), emit [ConsoleLog (ErrorWithProxy err),
                               LoggerError (ProxyErrorRecord err proxy)] w5)))"

section \<open>Bot.connect (lines 86-112) and its timer\<close>

text \<open>The callback handed to \<^verbatim>\<open>setInterval\<close>, lines 98-105.\<close>

definition timer_callback :: "env \<Rightarrow> config \<Rightarrow> closure \<Rightarrow> ping_reply \<Rightarrow> world \<Rightarrow> world" where
  "timer_callback e cfg c reply w =
     (case sendPing e cfg (cl_accountInfo c) (cl_token c) (cl_userAgent c) (cl_proxy c) reply w of
        (Inr u, w1) \<Rightarrow> w1
      | (Inl err, w1) \<Rightarrow>
          emit [ConsoleLog (PingSendError err), LoggerError (PingErrorRecord err)] w1)"

text \<open>
  One period of the interval timer, as the runtime drives it: a timer that was not
  cleared fires one period after its previous firing and runs its callback; a cleared
  timer, or none, does nothing. \<open>run_ticks\<close> lets \<open>n\<close> periods pass; the request of
  firing \<open>k\<close> (counted from 0) is answered with \<open>replies k\<close>.
\<close>

definition fire :: "env \<Rightarrow> config \<Rightarrow> ping_reply \<Rightarrow> world \<Rightarrow> world" where
  "fire e cfg reply w =
     (case interval w of
        None \<Rightarrow> w
      | Some t \<Rightarrow>
          if cleared t then w
          else timer_callback e cfg (callback t) reply
                 (w\<lparr> interval := Some (t\<lparr> elapsed := elapsed t + delay t \<rparr>) \<rparr>))"

fun run_ticks :: "env \<Rightarrow> config \<Rightarrow> (nat \<Rightarrow> ping_reply) \<Rightarrow> nat \<Rightarrow> world \<Rightarrow> world" where
  "run_ticks e cfg replies 0 w = w"
| "run_ticks e cfg replies (Suc n) w = fire e cfg (replies n) (run_ticks e cfg replies n w)"

text \<open>The handler of line 107: \<^verbatim>\<open>clearInterval(interval)\<close>.\<close>

definition clearInterval :: "world \<Rightarrow> world" where
  "clearInterval w =
     (case interval w of
        None \<Rightarrow> w
      | Some t \<Rightarrow> w\<lparr> interval := Some (t\<lparr> cleared := True \<rparr>) \<rparr>)"

definition userAgent0 :: string where
  "userAgent0 = ''Mozilla/5.0 ... Safari/537.3''"

text \<open>
  The \<^verbatim>\<open>try\<close> block of \<open>connect\<close>, lines 88-107. Reading \<^verbatim>\<open>accountInfo.uid\<close> at
  line 91 throws when \<open>getSession\<close> returned \<^verbatim>\<open>null\<close> or \<^verbatim>\<open>undefined\<close>.
\<close>

definition connect_try ::
  "env \<Rightarrow> config \<Rightarrow> string \<Rightarrow> string \<Rightarrow> session_reply \<Rightarrow> world \<Rightarrow> (error + unit) \<times> world" where
  "connect_try e cfg token proxy reply w =
     (case getSession e cfg token userAgent0 proxy reply w of
        (Inl err, w1) \<Rightarrow> (Inl err, w1)
      | (Inr None, w1) \<Rightarrow> (Inl (TypeError ''accountInfo.uid''), w1)
      | (Inr (Some a), w1) \<Rightarrow>
          (Inr (),
           emit [ProcessOnSIGINT]
             ((emit [ConsoleLog (Connected (uid a)),
                     LoggerInfo (SessionInformation (uid a) (name a) (proxy \<noteq> []))] w1)
              \<lparr> interval := Some \<lparr> delay = retryInterval cfg, elapsed = 0, cleared = False,
                                   callback = \<lparr> cl_accountInfo = a, cl_token = token,
                                                cl_userAgent = userAgent0, cl_proxy = proxy \<rparr> \<rparr> \<rparr>)))"

definition connect ::
  "env \<Rightarrow> config \<Rightarrow> string \<Rightarrow> string \<Rightarrow> session_reply \<Rightarrow> world \<Rightarrow> (error + unit) \<times> world" where
  "connect e cfg token proxy reply w =
     (case connect_try e cfg token proxy reply w of
        (Inr u, w1) \<Rightarrow> (Inr u, w1)
      | (Inl err, w1) \<Rightarrow>
          (Inr (), emit [ConsoleLog (Rejected err), LoggerError (RejectedRecord err proxy)] w1))"

section \<open>readLines and the main logic (lines 188-197, 223-250)\<close>

text \<open>
  \<open>readLines\<close> receives the lines that the \<^verbatim>\<open>readline\<close> interface yields for the
  file and trims each; it drops none.
\<close>

definition readLines :: "string list \<Rightarrow> string list" where
  "readLines file = map trim file"

text \<open>
  One element of \<^verbatim>\<open>proxies.map(...)\<close>, lines 244-248: \<open>connect\<close> followed by the
  \<^verbatim>\<open>.catch\<close> handler. Each task runs in its own copy of the initial world, so that its
  trace holds its own effects only.
\<close>

definition task :: "env \<Rightarrow> config \<Rightarrow> string \<Rightarrow> world \<Rightarrow> string \<times> session_reply \<Rightarrow> world" where
  "task e cfg token w0 pr =
     (case connect e cfg token (fst pr) (snd pr) w0 of
        (Inr u, w1) \<Rightarrow> w1
      | (Inl err, w1) \<Rightarrow> emit [ConsoleLog (MainCaught err)] w1)"

record run =
  console :: "console_msg list"
  tasks :: "world list"

text \<open>
  The main logic from line 223 on, given the lines of \<^verbatim>\<open>token.txt\<close> and
  \<^verbatim>\<open>proxy.txt\<close>; the session request of the proxy entry at position \<open>i\<close> is answered
  with \<open>replies i\<close>.
\<close>

definition main ::
  "env \<Rightarrow> string list \<Rightarrow> string list \<Rightarrow> (nat \<Rightarrow> session_reply) \<Rightarrow> world \<Rightarrow> run" where
  "main e token_txt proxy_txt replies w0 =
     (let tokens = readLines token_txt
      in if length tokens = 0 then \<lparr> console = [NoTokensFound], tasks = [] \<rparr>
         else
           (let proxies = readLines proxy_txt
            in if length proxies = 0 then \<lparr> console = [NoProxiesFound], tasks = [] \<rparr>
               else
                 (let token = tokens ! 0
                  in \<lparr> console = [],
                       tasks = map (task e Config token w0)
                                 (zip proxies (map replies [0 ..< length proxies])) \<rparr>)))"

section \<open>Observations on traces\<close>

fun is_session_post :: "event \<Rightarrow> bool" where
  "is_session_post (AxiosPost u EmptyObject c) = True"
| "is_session_post ev = False"

fun ping_of :: "event \<Rightarrow> pingData option" where
  "ping_of (AxiosPost u (PingBody pd) c) = Some pd"
| "ping_of ev = None"

fun headers_of :: "event \<Rightarrow> (string \<times> string) list option" where
  "headers_of (AxiosPost u b c) = Some (headers c)"
| "headers_of ev = None"

text \<open>The number of session requests a run hands to axios, over all its tasks.\<close>

definition session_attempts :: "run \<Rightarrow> nat" where
  "session_attempts r = length (filter is_session_post (concat (map trace (tasks r))))"

text \<open>The heartbeat bodies, and the headers of all requests, in the order sent.\<close>

definition pings_sent :: "world \<Rightarrow> pingData list" where
  "pings_sent w = List.map_filter ping_of (trace w)"

definition post_headers :: "world \<Rightarrow> (string \<times> string) list list" where
  "post_headers w = List.map_filter headers_of (trace w)"

text \<open>The durations and tags that the loop has logged with its \<^verbatim>\<open>Ping sent\<close> records.\<close>

fun score_of :: "event \<Rightarrow> (int \<times> score) option" where
  "score_of (LoggerInfo (PingSentRecord u b i d sc)) = Some (d, sc)"
| "score_of ev = None"

definition scores_logged :: "world \<Rightarrow> (int \<times> score) list" where
  "scores_logged w = List.map_filter score_of (trace w)"

text \<open>
  Whether lines 125-127 (and 159-161) get past the proxy string without a throw, so
  that the request that follows is made.
\<close>

definition agent_built :: "env \<Rightarrow> string \<Rightarrow> bool" where
  "agent_built e p = (case agentFor e p of Inl err \<Rightarrow> False | Inr c \<Rightarrow> True)"

text \<open>
  The identifier that \<^verbatim>\<open>crypto.randomBytes(8).toString('hex')\<close> yields when the
  next random byte is the one at position \<open>k\<close>.
\<close>

definition fresh_hex :: "(nat \<Rightarrow> 8 word) \<Rightarrow> nat \<Rightarrow> jsval" where
  "fresh_hex r k = JStr (toString_hex (map r [k ..< k + 8]))"

text \<open>
  The heartbeat body of lines 137-145 in closed form, as a function of the world in which
  \<open>sendPing\<close> starts (\<open>sendPing_trace_rejected\<close> and \<open>sendPing_trace_fulfilled\<close> below
  prove that this is the body sent).
\<close>

definition built_pingData :: "accountInfo \<Rightarrow> world \<Rightarrow> pingData" where
  "built_pingData a w =
     \<lparr> ping_id = (if truthy (uid a) then uid a else fresh_hex (rand w) (rpos w)),
       ping_browser_id =
         (if truthy (browser_id a) then browser_id a
          else fresh_hex (rand w) (if truthy (uid a) then rpos w else rpos w + 8)),
       ping_timestamp = clock w (cpos w) div 1000,
       ping_version = ''2.2.7'' \<rparr>"

text \<open>
  The specification's notion of a successfully parsed proxy entry, read on the code:
  \<open>buildProxyConfig\<close> yields connection parameters, that is neither \<^verbatim>\<open>null\<close> nor
  a throw.
\<close>

definition spec_successfully_parsed :: "env \<Rightarrow> string \<Rightarrow> bool" where
  "spec_successfully_parsed e p =
     (case buildProxyConfig e p of
        Inl err \<Rightarrow> False
      | Inr (HttpProxy h) \<Rightarrow> True
      | Inr (SocksProxyAgent s) \<Rightarrow> True
      | Inr Null \<Rightarrow> False)"

section \<open>Concrete inputs\<close>

text \<open>
  What \<^verbatim>\<open>url.parse\<close> does on the proxy strings used in the examples below (it
  throws on the host name \<^verbatim>\<open>xn--a\<close>; a string without a scheme has none of the
  three properties), with an agent constructor that accepts every string, and with one
  that rejects every string. The engine of the examples rounds every long run of digits
  to \<open>10^20\<close>, as it does for twenty nines.
\<close>

definition sample_url_parse :: "string \<Rightarrow> error + urlObject" where
  "sample_url_parse s =
     (if s = ''http://1.2.3.4:8080'' then
        Inr \<lparr> url_protocol = Some ''http:'', url_hostname = Some ''1.2.3.4'',
              url_port = Some ''8080'' \<rparr>
      else if s = ''socks5://5.6.7.8:1080'' then
        Inr \<lparr> url_protocol = Some ''socks5:'', url_hostname = Some ''5.6.7.8'',
              url_port = Some ''1080'' \<rparr>
      else if s = ''ftp://1.2.3.4:21'' then
        Inr \<lparr> url_protocol = Some ''ftp:'', url_hostname = Some ''1.2.3.4'',
              url_port = Some ''21'' \<rparr>
      else if s = ''http://1.2.3.4'' then
        Inr \<lparr> url_protocol = Some ''http:'', url_hostname = Some ''1.2.3.4'', url_port = None \<rparr>
      else if s = ''http://1.2.3.4:99999999999999999999'' then
        Inr \<lparr> url_protocol = Some ''http:'', url_hostname = Some ''1.2.3.4'',
              url_port = Some ''99999999999999999999'' \<rparr>
      else if s = ''http://xn--a:80'' then Inl (TypeError ''Invalid URL'')
      else Inr \<lparr> url_protocol = None, url_hostname = None, url_port = None \<rparr>)"

definition sample_env :: env where
  "sample_env = \<lparr> url_parse = sample_url_parse, newSocksProxyAgent = (\<lambda>s. None),
                   parseInt_large = (\<lambda>ds. Finite 100000000000000000000) \<rparr>"

definition strict_env :: env where
  "strict_env = \<lparr> url_parse = sample_url_parse,
                   newSocksProxyAgent = (\<lambda>s. Some (TypeError ''SocksProxyAgent'')),
                   parseInt_large = (\<lambda>ds. Finite 100000000000000000000) \<rparr>"

text \<open>
  A world whose first eight random bytes are \<open>0\<close> and whose later ones are \<open>1\<close>, and
  whose clock advances by three seconds from one reading to the next.
\<close>

definition sample_world :: world where
  "sample_world = \<lparr> rand = (\<lambda>n. if n < 8 then 0 else 1), rpos = 0,
                     clock = (\<lambda>k. 1700000000000 + 3000 * int k), cpos = 0,
                     trace = [], interval = None \<rparr>"

text \<open>A session payload without \<^verbatim>\<open>browser_id\<close>, and one with it.\<close>

definition sample_account :: accountInfo where
  "sample_account = \<lparr> uid = JStr ''u1'', name = JStr ''n1'', browser_id = JUndefined \<rparr>"

definition sample_account_b :: accountInfo where
  "sample_account_b = \<lparr> uid = JStr ''u1'', name = JStr ''n1'', browser_id = JStr ''b1'' \<rparr>"

text \<open>The task of the proxy entry \<^verbatim>\<open>http://1.2.3.4:8080\<close> once its session is obtained.\<close>

definition sample_loop_of :: "accountInfo \<Rightarrow> world" where
  "sample_loop_of a =
     task sample_env Config ''tok123'' sample_world
       (''http://1.2.3.4:8080'', SessionData (Some a))"

definition sample_loop :: world where
  "sample_loop = sample_loop_of sample_account"

definition sample_timer :: "accountInfo \<Rightarrow> timer" where
  "sample_timer a =
     \<lparr> delay = 30000, elapsed = 0, cleared = False,
       callback = \<lparr> cl_accountInfo = a, cl_token = ''tok123'', cl_userAgent = userAgent0,
                    cl_proxy = ''http://1.2.3.4:8080'' \<rparr> \<rparr>"

section \<open>Facts about sendPing\<close>

lemmas sendPing_defs = sendPing_def sendPing_try_def or_randomHex_def randomBytes_def
  Date_now_def emit_def Let_def fresh_hex_def built_pingData_def

lemma sendPing_fst: "fst (sendPing e cfg a token ua proxy reply w) = Inr ()"
  by (simp add: sendPing_defs split: sum.splits ping_reply.splits prod.splits)

lemma sendPing_interval: "interval (snd (sendPing e cfg a token ua proxy reply w)) = interval w"
  by (simp add: sendPing_defs split: sum.splits ping_reply.splits prod.splits)

lemma sendPing_rand: "rand (snd (sendPing e cfg a token ua proxy reply w)) = rand w"
  by (simp add: sendPing_defs split: sum.splits ping_reply.splits prod.splits)

lemma sendPing_clock: "clock (snd (sendPing e cfg a token ua proxy reply w)) = clock w"
  by (simp add: sendPing_defs split: sum.splits ping_reply.splits prod.splits)

lemma sendPing_rpos:
  "rpos (snd (sendPing e cfg a token ua proxy reply w)) =
     rpos w + (if truthy (uid a) then 0 else 8) + (if truthy (browser_id a) then 0 else 8)"
  by (simp add: sendPing_defs split: sum.splits ping_reply.splits prod.splits)

text \<open>The effects of one call, by what happens to the request.\<close>

lemma sendPing_trace_throw:
  "agentFor e proxy = Inl err \<Longrightarrow>
   trace (snd (sendPing e cfg a token ua proxy reply w)) =
     trace w @ [ConsoleLog (ErrorWithProxy err), LoggerError (ProxyErrorRecord err proxy)]"
  by (simp add: sendPing_defs split: sum.splits ping_reply.splits prod.splits)

lemma sendPing_trace_rejected:
  "agentFor e proxy = Inr agent \<Longrightarrow>
   trace (snd (sendPing e cfg a token ua proxy (PingRejected err) w)) =
     trace w @ [AxiosPost (pingURL cfg) (PingBody (built_pingData a w))
                  \<lparr> headers = mkHeaders token ua, httpAgent = agent \<rparr>,
                ConsoleLog (ErrorWithProxy err), LoggerError (ProxyErrorRecord err proxy)]"
  by (simp add: sendPing_defs split: sum.splits ping_reply.splits prod.splits)

lemma sendPing_trace_fulfilled:
  "agentFor e proxy = Inr agent \<Longrightarrow>
   trace (snd (sendPing e cfg a token ua proxy PingFulfilled w)) =
     trace w @ [AxiosPost (pingURL cfg) (PingBody (built_pingData a w))
                  \<lparr> headers = mkHeaders token ua, httpAgent = agent \<rparr>,
                ConsoleLog (PingSent (ping_id (built_pingData a w))),
                ConsoleLog (ProxyUsed (if proxy \<noteq> [] then ''Proxy IP: undefined'' else ''No proxy'')
                   (clock w (cpos w + 2) - clock w (cpos w + 1))
                   (if clock w (cpos w + 2) - clock w (cpos w + 1) < 5000 then Good else Slow)),
                LoggerInfo (PingSentRecord (ping_id (built_pingData a w))
                   (ping_browser_id (built_pingData a w))
                   (if proxy \<noteq> [] then JUndefined else JStr ''No proxy'')
                   (clock w (cpos w + 2) - clock w (cpos w + 1))
                   (if clock w (cpos w + 2) - clock w (cpos w + 1) < 5000 then Good else Slow))]"
  by (simp add: sendPing_defs split: sum.splits ping_reply.splits prod.splits)

lemma map_filter_append:
  "List.map_filter f (xs @ ys) = List.map_filter f xs @ List.map_filter f ys"
  by (simp add: List.map_filter_def)

lemma pings_sent_interval_update: "pings_sent (w\<lparr> interval := x \<rparr>) = pings_sent w"
  by (simp add: pings_sent_def)

lemma post_headers_interval_update: "post_headers (w\<lparr> interval := x \<rparr>) = post_headers w"
  by (simp add: post_headers_def)

lemma pings_sent_sendPing:
  "pings_sent (snd (sendPing e cfg a token ua proxy reply w)) =
     pings_sent w @ (if agent_built e proxy then [built_pingData a w] else [])"
proof (cases "agentFor e proxy")
  case (Inl err)
  then show ?thesis
    by (simp add: pings_sent_def sendPing_trace_throw map_filter_append agent_built_def
        List.map_filter_def)
next
  case (Inr agent)
  then show ?thesis
    by (cases reply)
       (simp_all add: pings_sent_def sendPing_trace_rejected sendPing_trace_fulfilled
          map_filter_append agent_built_def List.map_filter_def)
qed

lemma post_headers_sendPing:
  "post_headers (snd (sendPing e cfg a token ua proxy reply w)) =
     post_headers w @ (if agent_built e proxy then [mkHeaders token ua] else [])"
proof (cases "agentFor e proxy")
  case (Inl err)
  then show ?thesis
    by (simp add: post_headers_def sendPing_trace_throw map_filter_append agent_built_def
        List.map_filter_def)
next
  case (Inr agent)
  then show ?thesis
    by (cases reply)
       (simp_all add: post_headers_def sendPing_trace_rejected sendPing_trace_fulfilled
          map_filter_append agent_built_def List.map_filter_def)
qed

lemma fresh_hex_built:
  "ping_browser_id (built_pingData a w) =
     (if truthy (browser_id a) then browser_id a
      else fresh_hex (rand w) (rpos w + (if truthy (uid a) then 0 else 8)))"
  by (simp add: built_pingData_def)

section \<open>Facts about the timer\<close>

text \<open>The handler of lines 101-104 is dead code: \<open>sendPing\<close> has caught everything.\<close>

lemma timer_callback_eq:
  "timer_callback e cfg c reply w =
     snd (sendPing e cfg (cl_accountInfo c) (cl_token c) (cl_userAgent c) (cl_proxy c) reply w)"
  using sendPing_fst [of e cfg "cl_accountInfo c" "cl_token c" "cl_userAgent c" "cl_proxy c" reply w]
  by (cases "sendPing e cfg (cl_accountInfo c) (cl_token c) (cl_userAgent c) (cl_proxy c) reply w")
     (auto simp: timer_callback_def)

lemma fire_active:
  "interval w = Some t \<Longrightarrow> \<not> cleared t \<Longrightarrow>
   fire e cfg reply w =
     snd (sendPing e cfg (cl_accountInfo (callback t)) (cl_token (callback t))
            (cl_userAgent (callback t)) (cl_proxy (callback t)) reply
            (w\<lparr> interval := Some (t\<lparr> elapsed := elapsed t + delay t \<rparr>) \<rparr>))"
  by (simp add: fire_def timer_callback_eq)

text \<open>After the interrupt handler of line 107 has run, the timer fires no more.\<close>

lemma fire_cleared: "fire e cfg reply (clearInterval w) = clearInterval w"
  by (cases "interval w") (simp_all add: fire_def clearInterval_def)

lemma fire_interval:
  "interval w = Some t \<Longrightarrow> \<not> cleared t \<Longrightarrow>
   interval (fire e cfg reply w) = Some (t\<lparr> elapsed := elapsed t + delay t \<rparr>)"
  by (simp add: fire_active sendPing_interval)

text \<open>
  Invariants of a running timer over any number of periods and any replies: it stays
  armed and its nominal time advances by one period per firing; the random source is
  consumed at a fixed rate; its closure never changes.
\<close>

lemma run_ticks_interval:
  "interval w = Some t \<Longrightarrow> \<not> cleared t \<Longrightarrow>
   interval (run_ticks e cfg replies n w) = Some (t\<lparr> elapsed := elapsed t + n * delay t \<rparr>)"
proof (induction n)
  case 0
  then show ?case by simp
next
  case (Suc n)
  then have "interval (run_ticks e cfg replies n w) = Some (t\<lparr> elapsed := elapsed t + n * delay t \<rparr>)"
    by simp
  then show ?case using Suc.prems
    by (simp add: fire_interval add.assoc add.commute)
qed

lemma run_ticks_rand: "rand (run_ticks e cfg replies n w) = rand w"
proof (induction n)
  case 0
  show ?case by simp
next
  case (Suc n)
  show ?case
  proof (cases "interval (run_ticks e cfg replies n w)")
    case None
    then show ?thesis using Suc by (simp add: fire_def)
  next
    case (Some t)
    then show ?thesis using Suc
      by (cases "cleared t") (simp_all add: fire_def timer_callback_eq sendPing_rand)
  qed
qed

lemma run_ticks_rpos:
  "interval w = Some t \<Longrightarrow> \<not> cleared t \<Longrightarrow>
   rpos (run_ticks e cfg replies n w) =
     rpos w + n * ((if truthy (uid (cl_accountInfo (callback t))) then 0 else 8)
                   + (if truthy (browser_id (cl_accountInfo (callback t))) then 0 else 8))"
proof (induction n)
  case 0
  show ?case by simp
next
  case (Suc n)
  have iv: "interval (run_ticks e cfg replies n w) = Some (t\<lparr> elapsed := elapsed t + n * delay t \<rparr>)"
    using Suc.prems by (rule run_ticks_interval)
  have "\<not> cleared (t\<lparr> elapsed := elapsed t + n * delay t \<rparr>)"
    using Suc.prems by simp
  from fire_active [OF iv this] show ?case
    using Suc by (simp add: sendPing_rpos)
qed

lemma run_ticks_callback:
  "map_option callback (interval (run_ticks e cfg replies n w)) = map_option callback (interval w)"
proof (induction n)
  case 0
  show ?case by simp
next
  case (Suc n)
  show ?case
  proof (cases "interval (run_ticks e cfg replies n w)")
    case None
    then show ?thesis using Suc by (simp add: fire_def)
  next
    case (Some t)
    then show ?thesis using Suc
      by (cases "cleared t") (simp_all add: fire_def timer_callback_eq sendPing_interval)
  qed
qed

text \<open>The browser identifiers of the heartbeats of \<open>n\<close> periods, one per period.\<close>

lemma run_ticks_pings:
  assumes iv: "interval w = Some t" and act: "\<not> cleared t"
    and ok: "agent_built e (cl_proxy (callback t))"
  shows "map ping_browser_id (pings_sent (run_ticks e cfg replies n w)) =
           map ping_browser_id (pings_sent w) @
           map (\<lambda>k. if truthy (browser_id (cl_accountInfo (callback t)))
                     then browser_id (cl_accountInfo (callback t))
                     else fresh_hex (rand w)
                            (rpos w
                             + k * ((if truthy (uid (cl_accountInfo (callback t))) then 0 else 8)
                                    + (if truthy (browser_id (cl_accountInfo (callback t))) then 0 else 8))
                             + (if truthy (uid (cl_accountInfo (callback t))) then 0 else 8)))
               [0 ..< n]"
proof (induction n)
  case 0
  show ?case by simp
next
  case (Suc n)
  let ?wn = "run_ticks e cfg replies n w"
  let ?tn = "t\<lparr> elapsed := elapsed t + n * delay t \<rparr>"
  have ivn: "interval ?wn = Some ?tn"
    using iv act by (rule run_ticks_interval)
  have actn: "\<not> cleared ?tn" using act by simp
  have r: "rand ?wn = rand w" by (rule run_ticks_rand)
  have p: "rpos ?wn = rpos w + n * ((if truthy (uid (cl_accountInfo (callback t))) then 0 else 8)
                   + (if truthy (browser_id (cl_accountInfo (callback t))) then 0 else 8))"
    using iv act by (rule run_ticks_rpos)
  show ?case
    using Suc ok r p
    by (simp add: fire_active [OF ivn actn] pings_sent_sendPing fresh_hex_built
        pings_sent_interval_update)
qed

lemma run_ticks_pings_count:
  assumes iv: "interval w = Some t" and act: "\<not> cleared t"
  shows "length (pings_sent (run_ticks e cfg replies n w)) =
           length (pings_sent w) + (if agent_built e (cl_proxy (callback t)) then n else 0)"
proof (induction n)
  case 0
  show ?case by simp
next
  case (Suc n)
  let ?wn = "run_ticks e cfg replies n w"
  let ?tn = "t\<lparr> elapsed := elapsed t + n * delay t \<rparr>"
  have ivn: "interval ?wn = Some ?tn"
    using iv act by (rule run_ticks_interval)
  have actn: "\<not> cleared ?tn" using act by simp
  show ?case
    using Suc by (simp add: fire_active [OF ivn actn] pings_sent_sendPing
        pings_sent_interval_update)
qed

text \<open>Every request of the loop carries the headers built from the closure.\<close>

lemma post_headers_fire:
  "set (post_headers (fire e cfg reply w)) \<subseteq>
     set (post_headers w) \<union>
     (case interval w of None \<Rightarrow> {}
      | Some t \<Rightarrow> {mkHeaders (cl_token (callback t)) (cl_userAgent (callback t))})"
proof (cases "interval w")
  case None
  then show ?thesis by (simp add: fire_def)
next
  case (Some t)
  then show ?thesis
    by (cases "cleared t")
       (auto simp: fire_def timer_callback_eq post_headers_sendPing
          post_headers_interval_update split: if_splits)
qed

lemma run_ticks_post_headers:
  "set (post_headers (run_ticks e cfg replies n w)) \<subseteq>
     set (post_headers w) \<union>
     (case interval w of None \<Rightarrow> {}
      | Some t \<Rightarrow> {mkHeaders (cl_token (callback t)) (cl_userAgent (callback t))})"
proof (induction n)
  case 0
  show ?case by simp
next
  case (Suc n)
  have "set (post_headers (run_ticks e cfg replies (Suc n) w)) \<subseteq>
          set (post_headers (run_ticks e cfg replies n w)) \<union>
          (case interval (run_ticks e cfg replies n w) of None \<Rightarrow> {}
           | Some t \<Rightarrow> {mkHeaders (cl_token (callback t)) (cl_userAgent (callback t))})"
    by (simp add: post_headers_fire)
  moreover have "(case interval (run_ticks e cfg replies n w) of None \<Rightarrow> {}
           | Some t \<Rightarrow> {mkHeaders (cl_token (callback t)) (cl_userAgent (callback t))}) =
        (case interval w of None \<Rightarrow> {}
           | Some t \<Rightarrow> {mkHeaders (cl_token (callback t)) (cl_userAgent (callback t))})"
    using run_ticks_callback [of e cfg replies n w]
    by (cases "interval (run_ticks e cfg replies n w)"; cases "interval w") auto
  ultimately show ?case using Suc by auto
qed

section \<open>Facts about strings\<close>

lemma length_hex_byte: "length (hex_byte b) = 2"
  by (simp add: hex_byte_def)

lemma length_toString_hex: "length (toString_hex bs) = 2 * length bs"
  by (induction bs) (simp_all add: toString_hex_def length_hex_byte)

text \<open>No white-space sequence starts with a printable character, and none ends with one.\<close>

lemma ws_seqs_heads: "\<forall>q \<in> set ws_seqs. q \<noteq> [] \<and> \<not> printable (hd q)"
  by (simp add: ws_seqs_def printable_def)

lemma ws_seqs_lasts: "\<forall>q \<in> set (map rev ws_seqs). q \<noteq> [] \<and> \<not> printable (hd q)"
  by (simp add: ws_seqs_def printable_def)

lemma ws_len_no_head:
  assumes "\<forall>q \<in> set seqs. q \<noteq> [] \<and> \<not> printable (hd q)" and "printable c"
  shows "ws_len seqs (c # cs) = 0"
proof -
  have "take (length q) (c # cs) \<noteq> q" if "q \<in> set seqs" for q
  proof
    assume eq: "take (length q) (c # cs) = q"
    from that assms(1) have "q \<noteq> []" and np: "\<not> printable (hd q)" by auto
    then obtain d ds where q: "q = d # ds" by (cases q) auto
    from eq have "d = c" by (simp add: q)
    then show False using np assms(2) by (simp add: q)
  qed
  then have "List.find (\<lambda>q. take (length q) (c # cs) = q) seqs = None"
    by (simp add: find_None_iff)
  then show ?thesis by (simp add: ws_len_def)
qed

lemma ws_len_printable: "printable c \<Longrightarrow> ws_len ws_seqs (c # cs) = 0"
  using ws_seqs_heads by (rule ws_len_no_head)

lemma ws_len_rev_printable: "printable c \<Longrightarrow> ws_len (map rev ws_seqs) (c # cs) = 0"
  using ws_seqs_lasts by (rule ws_len_no_head)

lemma ws_len_Nil: "ws_len ws_seqs [] = 0" "ws_len (map rev ws_seqs) [] = 0"
  by (simp_all add: ws_len_def ws_seqs_def)

lemma skip_seqs_stop: "ws_len seqs s = 0 \<Longrightarrow> skip_seqs seqs s = s"
  by (subst skip_seqs.simps) simp

lemma skip_seqs_step:
  "ws_len seqs s = n \<Longrightarrow> n \<noteq> 0 \<Longrightarrow> skip_seqs seqs s = skip_seqs seqs (drop n s)"
  by (subst skip_seqs.simps) simp

lemma skip_seqs_printable: "printable c \<Longrightarrow> skip_seqs ws_seqs (c # cs) = c # cs"
  by (simp add: skip_seqs_stop ws_len_printable)

text \<open>
  \<open>trim\<close> leaves the empty string and every string with a printable character at each
  end as they are, and strips white space outside ASCII as well.
\<close>

lemma trim_Nil: "trim [] = []"
  by (simp add: trim_def skip_seqs_stop ws_len_Nil)

lemma trim_printable:
  assumes "s \<noteq> []" and "printable (hd s)" and "printable (last s)"
  shows "trim s = s"
proof -
  obtain c cs where s: "s = c # cs" using assms(1) by (cases s) auto
  have 1: "skip_seqs ws_seqs s = s"
    using assms(2) by (simp add: s skip_seqs_printable)
  obtain d ds where r: "rev s = d # ds" using assms(1) by (cases "rev s") auto
  then have "d = last s" using assms(1) by (metis hd_rev list.sel(1))
  then have 2: "skip_seqs (map rev ws_seqs) (rev s) = rev s"
    using assms(3) by (simp add: r skip_seqs_stop ws_len_rev_printable)
  show ?thesis by (simp add: trim_def 1 2)
qed

lemma trim_nbsp_bom:
  "trim ([CHR 0xC2, CHR 0xA0] @ '' tok123 '' @ [CHR 0xEF, CHR 0xBB, CHR 0xBF, CHR 0x0D]) = ''tok123''"
proof -
  have a: "ws_len ws_seqs ([CHR 0xC2, CHR 0xA0] @ '' tok123 '' @ [CHR 0xEF, CHR 0xBB, CHR 0xBF, CHR 0x0D]) = 2"
    by (simp add: ws_len_def ws_seqs_def)
  have b: "ws_len ws_seqs ('' tok123 '' @ [CHR 0xEF, CHR 0xBB, CHR 0xBF, CHR 0x0D]) = 1"
    by (simp add: ws_len_def ws_seqs_def)
  have c: "ws_len ws_seqs (''tok123 '' @ [CHR 0xEF, CHR 0xBB, CHR 0xBF, CHR 0x0D]) = 0"
    by (simp add: ws_len_def ws_seqs_def)
  have 1: "skip_seqs ws_seqs ([CHR 0xC2, CHR 0xA0] @ '' tok123 '' @ [CHR 0xEF, CHR 0xBB, CHR 0xBF, CHR 0x0D])
           = ''tok123 '' @ [CHR 0xEF, CHR 0xBB, CHR 0xBF, CHR 0x0D]"
    using skip_seqs_step [OF a] skip_seqs_step [OF b] skip_seqs_stop [OF c] by simp
  have d: "ws_len (map rev ws_seqs) (rev (''tok123 '' @ [CHR 0xEF, CHR 0xBB, CHR 0xBF, CHR 0x0D])) = 1"
    by (simp add: ws_len_def ws_seqs_def)
  have e: "ws_len (map rev ws_seqs)
             (drop 1 (rev (''tok123 '' @ [CHR 0xEF, CHR 0xBB, CHR 0xBF, CHR 0x0D]))) = 3"
    by (simp add: ws_len_def ws_seqs_def)
  have f: "ws_len (map rev ws_seqs)
             (drop 3 (drop 1 (rev (''tok123 '' @ [CHR 0xEF, CHR 0xBB, CHR 0xBF, CHR 0x0D])))) = 1"
    by (simp add: ws_len_def ws_seqs_def)
  have g: "ws_len (map rev ws_seqs)
             (drop 1 (drop 3 (drop 1 (rev (''tok123 '' @ [CHR 0xEF, CHR 0xBB, CHR 0xBF, CHR 0x0D]))))) = 0"
    by (simp add: ws_len_def ws_seqs_def)
  have 2: "skip_seqs (map rev ws_seqs) (rev (''tok123 '' @ [CHR 0xEF, CHR 0xBB, CHR 0xBF, CHR 0x0D]))
           = rev ''tok123''"
    using skip_seqs_step [OF d] skip_seqs_step [OF e] skip_seqs_step [OF f] skip_seqs_stop [OF g]
    by simp
  show ?thesis by (simp only: trim_def 1 2 rev_rev_ident)
qed

text \<open>
  \<^verbatim>\<open>parseInt\<close> of a string of decimal digits is the number the digits denote where
  that is below \<open>2^53\<close>, and the engine's rounding of it otherwise.
\<close>

lemma is_digit_printable: "is_digit c \<Longrightarrow> printable c"
  by (simp add: is_digit_def printable_def)

lemma parseInt10_digits:
  assumes "ds \<noteq> []" and "\<forall>c \<in> set ds. is_digit c"
  shows "parseInt10 e ds =
           Num False (if dec_val ds < 9007199254740992 then Finite (dec_val ds)
                      else parseInt_large e ds)"
proof -
  obtain c cs where ds: "ds = c # cs" using assms(1) by (cases ds) auto
  have h: "is_digit c" using assms(2) by (simp add: ds)
  have ws: "skip_seqs ws_seqs ds = ds"
    using h by (simp add: ds skip_seqs_printable is_digit_printable)
  have sign: "c \<noteq> CHR ''-'' \<and> c \<noteq> CHR ''+''"
    using h by (auto simp: is_digit_def)
  have tw: "takeWhile is_digit ds = ds" using assms(2) by (simp add: takeWhile_eq_all_conv)
  show ?thesis
    unfolding parseInt10_def ws Let_def
    using sign tw by (simp add: ds)
qed

lemma parseInt_null: "parseInt e None = NaN"
  by (simp add: parseInt_def parseInt10_def skip_seqs_printable printable_def is_digit_def
      Let_def)

section \<open>Facts about connect and the main logic\<close>

lemmas connect_defs = task_def connect_def connect_try_def getSession_def getSession_try_def
  emit_def Let_def agent_built_def

lemma connect_fst: "fst (connect e cfg token proxy reply w) = Inr ()"
  by (simp add: connect_def split: prod.splits sum.splits)

lemma task_session_posts:
  "length (filter is_session_post (trace (task e cfg token w0 pr))) =
     length (filter is_session_post (trace w0)) + (if agent_built e (fst pr) then 1 else 0)"
  by (simp add: connect_defs split: prod.splits sum.splits session_reply.splits option.splits)

lemma task_post_headers:
  "post_headers (task e cfg token w0 pr) =
     post_headers w0 @ (if agent_built e (fst pr) then [mkHeaders token userAgent0] else [])"
  by (simp add: connect_defs post_headers_def List.map_filter_def
      split: prod.splits sum.splits session_reply.splits option.splits)

lemma task_interval:
  "interval (task e cfg token w0 pr) =
     (case agentFor e (fst pr) of
        Inl err \<Rightarrow> interval w0
      | Inr agent \<Rightarrow>
          (case snd pr of
             SessionData (Some a) \<Rightarrow>
               Some \<lparr> delay = retryInterval cfg, elapsed = 0, cleared = False,
                      callback = \<lparr> cl_accountInfo = a, cl_token = token,
                                   cl_userAgent = userAgent0, cl_proxy = fst pr \<rparr> \<rparr>
           | _ \<Rightarrow> interval w0))"
  by (simp add: connect_defs split: prod.splits sum.splits session_reply.splits option.splits)

lemma task_callback_token:
  assumes "interval w0 = None" and "interval (task e cfg token w0 pr) = Some t"
  shows "cl_token (callback t) = token \<and> cl_userAgent (callback t) = userAgent0
         \<and> cl_proxy (callback t) = fst pr \<and> \<not> cleared t"
  using assms
  by (auto simp: task_interval split: sum.splits session_reply.splits option.splits)

lemma main_started:
  "token_txt \<noteq> [] \<Longrightarrow> proxy_txt \<noteq> [] \<Longrightarrow>
   main e token_txt proxy_txt replies w0 =
     \<lparr> console = [],
       tasks = map (task e Config (trim (hd token_txt)) w0)
                 (zip (map trim proxy_txt) (map replies [0 ..< length proxy_txt])) \<rparr>"
  by (cases token_txt) (simp_all add: main_def readLines_def Let_def)

lemma main_no_proxies:
  "token_txt \<noteq> [] \<Longrightarrow>
   main e token_txt [] replies w0 = \<lparr> console = [NoProxiesFound], tasks = [] \<rparr>"
  by (simp add: main_def readLines_def)

lemma count_session_posts:
  "length (filter is_session_post (concat (map trace (map (task e cfg token w0) prs)))) =
     length prs * length (filter is_session_post (trace w0))
     + length (filter (agent_built e) (map fst prs))"
  by (induction prs) (simp_all add: task_session_posts)

lemma main_task_nth:
  assumes "token_txt \<noteq> []" and "j < length proxy_txt"
  shows "tasks (main e token_txt proxy_txt replies w0) ! j =
           task e Config (trim (hd token_txt)) w0 (trim (proxy_txt ! j), replies j)"
proof -
  have "proxy_txt \<noteq> []" using assms(2) by auto
  then show ?thesis using assms by (simp add: main_started)
qed

text \<open>
  What one task does, effect for effect, in any world it starts in: the session request,
  then the records of the connection or of the rejection. It reads nothing of the world.
\<close>

lemma task_trace:
  "agentFor e proxy = Inr agent \<Longrightarrow>
   trace (task e cfg token w (proxy, reply)) =
     trace w @
     AxiosPost (sessionURL cfg) EmptyObject
       \<lparr> headers = mkHeaders token userAgent0, httpAgent = agent \<rparr> #
     (case reply of
        SessionRejected err \<Rightarrow>
          [ConsoleLog (Rejected (Error ''Session request failed'')),
           LoggerError (RejectedRecord (Error ''Session request failed'') proxy)]
      | SessionBodyNullish \<Rightarrow>
          [ConsoleLog (Rejected (Error ''Session request failed'')),
           LoggerError (RejectedRecord (Error ''Session request failed'') proxy)]
      | SessionData None \<Rightarrow>
          [ConsoleLog (Rejected (TypeError ''accountInfo.uid'')),
           LoggerError (RejectedRecord (TypeError ''accountInfo.uid'') proxy)]
      | SessionData (Some a) \<Rightarrow>
          [ConsoleLog (Connected (uid a)),
           LoggerInfo (SessionInformation (uid a) (name a) (proxy \<noteq> [])),
           ProcessOnSIGINT])"
  by (simp add: connect_defs split: prod.splits sum.splits session_reply.splits option.splits)

lemma task_trace_frame:
  "trace w0 = [] \<Longrightarrow>
   trace (task e cfg token w pr) = trace w @ trace (task e cfg token w0 pr)"
  by (simp add: connect_defs split: prod.splits sum.splits session_reply.splits option.splits)

section \<open>Facts about the concrete inputs\<close>

lemmas eval_defs = agent_built_def agentFor_def buildProxyConfig_def sample_env_def
  strict_env_def sample_url_parse_def parseInt_def parseInt10_def skip_seqs_printable printable_def is_digit_def
  dec_val_def digit_val_def Let_def

lemma sample_agentFor:
  "agentFor sample_env ''http://1.2.3.4:8080'' =
     Inr (Some (HttpProxy \<lparr> host = Some ''1.2.3.4'', port = Num False (Finite 8080), protocol = ''http'' \<rparr>))"
  by (simp add: eval_defs)

lemma sample_agent_built: "agent_built sample_env ''http://1.2.3.4:8080''"
  by (simp add: agent_built_def sample_agentFor)

lemma strict_agentFor:
  "agentFor strict_env ''socks5://5.6.7.8:1080'' = Inl (TypeError ''SocksProxyAgent'')"
  by (simp add: eval_defs)

lemma sample_loop_of_eq:
  "sample_loop_of a =
     sample_world
     \<lparr> trace := [AxiosPost (sessionURL Config) EmptyObject
                    \<lparr> headers = mkHeaders ''tok123'' userAgent0,
                      httpAgent = Some (HttpProxy \<lparr> host = Some ''1.2.3.4'', port = Num False (Finite 8080),
                                                    protocol = ''http'' \<rparr>) \<rparr>,
                  ConsoleLog (Connected (uid a)),
                  LoggerInfo (SessionInformation (uid a) (name a) True),
                  ProcessOnSIGINT],
       interval := Some (sample_timer a) \<rparr>"
  by (simp add: sample_loop_of_def task_def connect_def connect_try_def getSession_def
      getSession_try_def emit_def sample_agentFor sample_world_def sample_timer_def Config_def)

lemma sample_loop_of_interval: "interval (sample_loop_of a) = Some (sample_timer a)"
  by (simp add: sample_loop_of_eq)

lemma sample_timer_active: "\<not> cleared (sample_timer a)"
  by (simp add: sample_timer_def)

lemma sample_loop_of_pings: "pings_sent (sample_loop_of a) = []"
  by (simp add: sample_loop_of_eq pings_sent_def List.map_filter_def)

lemma sample_loop_of_rand:
  "rand (sample_loop_of a) = (\<lambda>n. if n < 8 then 0 else 1)" "rpos (sample_loop_of a) = 0"
  by (simp_all add: sample_loop_of_eq sample_world_def)

lemma sample_world_rand:
  "rand sample_world = (\<lambda>n. if n < 8 then 0 else 1)" "rpos sample_world = 0"
  by (simp_all add: sample_world_def)

lemma sample_world_pings: "pings_sent sample_world = []"
  by (simp add: pings_sent_def sample_world_def List.map_filter_def)

lemma hex_zero: "fresh_hex (\<lambda>n. if n < 8 then 0 else 1) 0 = JStr ''0000000000000000''"
  by (simp add: fresh_hex_def toString_hex_def hex_byte_def hex_digit_def upt_rec)

lemma hex_one: "fresh_hex (\<lambda>n. if n < 8 then 0 else 1) 8 = JStr ''0101010101010101''"
  by (simp add: fresh_hex_def toString_hex_def hex_byte_def hex_digit_def upt_rec)

section \<open>The claims\<close>

subsection \<open>C1: what buildProxyConfig returns\<close>

text \<open>
  Claim C1 as stated does not hold. A proxy string with the scheme \<^verbatim>\<open>ftp\<close> does not
  make \<open>buildProxyConfig\<close> fail: it returns \<^verbatim>\<open>null\<close>. A string with the scheme
  \<^verbatim>\<open>http\<close> and no port does not make it fail either: it returns connection
  parameters whose port is \<^verbatim>\<open>NaN\<close>.
\<close>

theorem buildProxyConfig_no_format_error_counterexample:
  "buildProxyConfig sample_env ''ftp://1.2.3.4:21'' = Inr Null
   \<and> buildProxyConfig sample_env ''http://1.2.3.4'' =
       Inr (HttpProxy \<lparr> host = Some ''1.2.3.4'', port = NaN, protocol = ''http'' \<rparr>)"
  by (simp add: eval_defs)

text \<open>
  Claim C1, amended. Where \<^verbatim>\<open>url.parse\<close> throws on the proxy string,
  \<open>buildProxyConfig\<close> throws the same. Where it returns an object with the protocol
  \<^verbatim>\<open>http:\<close>, \<open>buildProxyConfig\<close> returns the host name of that object, the tag
  \<^verbatim>\<open>http\<close> and \<^verbatim>\<open>parseInt\<close> of the port of that object, validating neither:
  \<^verbatim>\<open>NaN\<close> when there is no port and, for a port of decimal digits, the number the
  digits denote when that is below \<open>2^53\<close> and the engine's rounding of it otherwise.
  With the protocol \<^verbatim>\<open>socks5:\<close> it returns an agent built from the whole string, or
  throws what the agent's constructor throws. With any other protocol, or none, it returns
  \<^verbatim>\<open>null\<close>; it raises no error of its own. In particular, for a string
  \<^verbatim>\<open>http://h:ds\<close> that \<^verbatim>\<open>url.parse\<close> splits into the host \<open>h\<close> and the port
  \<open>ds\<close>, with \<open>ds\<close> decimal digits of a value below \<open>2^53\<close>, the result holds the
  host, the port and the scheme of the string.
\<close>

theorem buildProxyConfig_result:
  "(\<forall>err. url_parse e p = Inl err \<longrightarrow> buildProxyConfig e p = Inl err)
   \<and> (\<forall>u. url_parse e p = Inr u \<and> url_protocol u = Some ''http:'' \<longrightarrow>
         buildProxyConfig e p =
           Inr (HttpProxy \<lparr> host = url_hostname u, port = parseInt e (url_port u),
                            protocol = ''http'' \<rparr>)
         \<and> (url_port u = None \<longrightarrow> parseInt e (url_port u) = NaN)
         \<and> (\<forall>ds. url_port u = Some ds \<and> ds \<noteq> [] \<and> list_all is_digit ds \<longrightarrow>
                parseInt e (url_port u) =
                  Num False (if dec_val ds < 2 ^ 53 then Finite (dec_val ds)
                             else parseInt_large e ds)))
   \<and> (\<forall>u. url_parse e p = Inr u \<and> url_protocol u = Some ''socks5:'' \<longrightarrow>
         buildProxyConfig e p =
           (case newSocksProxyAgent e p of
              Some err \<Rightarrow> Inl err | None \<Rightarrow> Inr (SocksProxyAgent p)))
   \<and> (\<forall>u. url_parse e p = Inr u \<and> url_protocol u \<noteq> Some ''http:''
            \<and> url_protocol u \<noteq> Some ''socks5:'' \<longrightarrow>
         buildProxyConfig e p = Inr Null)
   \<and> (\<forall>h ds. url_parse e (''http://'' @ h @ '':'' @ ds) =
                  Inr \<lparr> url_protocol = Some ''http:'', url_hostname = Some h,
                        url_port = Some ds \<rparr>
              \<and> ds \<noteq> [] \<and> list_all is_digit ds \<and> dec_val ds < 2 ^ 53 \<longrightarrow>
         buildProxyConfig e (''http://'' @ h @ '':'' @ ds) =
           Inr (HttpProxy \<lparr> host = Some h, port = Num False (Finite (dec_val ds)),
                            protocol = ''http'' \<rparr>))"
proof -
  have digits: "parseInt e (Some ds) =
      Num False (if dec_val ds < 2 ^ 53 then Finite (dec_val ds) else parseInt_large e ds)"
    if "ds \<noteq> []" "list_all is_digit ds" for ds
    using that parseInt10_digits [of ds e] by (simp add: parseInt_def list_all_iff)
  have 1: "\<forall>err. url_parse e p = Inl err \<longrightarrow> buildProxyConfig e p = Inl err"
    by (simp add: buildProxyConfig_def)
  have 2: "\<forall>u. url_parse e p = Inr u \<and> url_protocol u = Some ''http:'' \<longrightarrow>
         buildProxyConfig e p =
           Inr (HttpProxy \<lparr> host = url_hostname u, port = parseInt e (url_port u),
                            protocol = ''http'' \<rparr>)
         \<and> (url_port u = None \<longrightarrow> parseInt e (url_port u) = NaN)
         \<and> (\<forall>ds. url_port u = Some ds \<and> ds \<noteq> [] \<and> list_all is_digit ds \<longrightarrow>
                parseInt e (url_port u) =
                  Num False (if dec_val ds < 2 ^ 53 then Finite (dec_val ds)
                             else parseInt_large e ds))"
    using digits by (auto simp: buildProxyConfig_def parseInt_null)
  have 3: "\<forall>u. url_parse e p = Inr u \<and> url_protocol u = Some ''socks5:'' \<longrightarrow>
         buildProxyConfig e p =
           (case newSocksProxyAgent e p of
              Some err \<Rightarrow> Inl err | None \<Rightarrow> Inr (SocksProxyAgent p))"
    by (simp add: buildProxyConfig_def)
  have 4: "\<forall>u. url_parse e p = Inr u \<and> url_protocol u \<noteq> Some ''http:''
            \<and> url_protocol u \<noteq> Some ''socks5:'' \<longrightarrow>
         buildProxyConfig e p = Inr Null"
    by (simp add: buildProxyConfig_def)
  have 5: "\<forall>h ds. url_parse e (''http://'' @ h @ '':'' @ ds) =
                  Inr \<lparr> url_protocol = Some ''http:'', url_hostname = Some h,
                        url_port = Some ds \<rparr>
              \<and> ds \<noteq> [] \<and> list_all is_digit ds \<and> dec_val ds < 2 ^ 53 \<longrightarrow>
         buildProxyConfig e (''http://'' @ h @ '':'' @ ds) =
           Inr (HttpProxy \<lparr> host = Some h, port = Num False (Finite (dec_val ds)),
                            protocol = ''http'' \<rparr>)"
    using digits by (simp add: buildProxyConfig_def)
  from 1 2 3 4 5 show ?thesis by (intro conjI)
qed

text \<open>
  Claim C1, amended, on seven proxy strings: \<^verbatim>\<open>http\<close> with a port, with a port of
  twenty nines (which the engine rounds) and without a port, \<^verbatim>\<open>socks5\<close> with a
  constructor that accepts and with one that throws, \<^verbatim>\<open>ftp\<close>, and a string on which
  \<^verbatim>\<open>url.parse\<close> throws.
\<close>

theorem buildProxyConfig_result_witness:
  "buildProxyConfig sample_env ''http://1.2.3.4:8080'' =
     Inr (HttpProxy \<lparr> host = Some ''1.2.3.4'', port = Num False (Finite 8080),
                      protocol = ''http'' \<rparr>)
   \<and> buildProxyConfig sample_env ''http://1.2.3.4:99999999999999999999'' =
     Inr (HttpProxy \<lparr> host = Some ''1.2.3.4'',
                      port = Num False (Finite 100000000000000000000), protocol = ''http'' \<rparr>)
   \<and> buildProxyConfig sample_env ''http://1.2.3.4'' =
     Inr (HttpProxy \<lparr> host = Some ''1.2.3.4'', port = NaN, protocol = ''http'' \<rparr>)
   \<and> buildProxyConfig sample_env ''socks5://5.6.7.8:1080'' =
     Inr (SocksProxyAgent ''socks5://5.6.7.8:1080'')
   \<and> buildProxyConfig strict_env ''socks5://5.6.7.8:1080'' = Inl (TypeError ''SocksProxyAgent'')
   \<and> buildProxyConfig sample_env ''ftp://1.2.3.4:21'' = Inr Null
   \<and> buildProxyConfig sample_env ''http://xn--a:80'' = Inl (TypeError ''Invalid URL'')"
proof -
  have a: "buildProxyConfig sample_env ''http://1.2.3.4:8080'' =
     Inr (HttpProxy \<lparr> host = Some ''1.2.3.4'', port = Num False (Finite 8080),
                      protocol = ''http'' \<rparr>)"
    using buildProxyConfig_result [of sample_env "''http://1.2.3.4:8080''"]
    by (simp add: sample_env_def sample_url_parse_def is_digit_def dec_val_def digit_val_def)
  have b: "buildProxyConfig sample_env ''http://1.2.3.4:99999999999999999999'' =
     Inr (HttpProxy \<lparr> host = Some ''1.2.3.4'',
                      port = Num False (Finite 100000000000000000000), protocol = ''http'' \<rparr>)"
    using buildProxyConfig_result [of sample_env "''http://1.2.3.4:99999999999999999999''"]
    by (simp add: sample_env_def sample_url_parse_def is_digit_def dec_val_def digit_val_def)
  have c: "buildProxyConfig sample_env ''http://1.2.3.4'' =
     Inr (HttpProxy \<lparr> host = Some ''1.2.3.4'', port = NaN, protocol = ''http'' \<rparr>)"
    using buildProxyConfig_result [of sample_env "''http://1.2.3.4''"]
    by (simp add: sample_env_def sample_url_parse_def)
  have d: "buildProxyConfig sample_env ''socks5://5.6.7.8:1080'' =
     Inr (SocksProxyAgent ''socks5://5.6.7.8:1080'')"
    using buildProxyConfig_result [of sample_env "''socks5://5.6.7.8:1080''"]
    by (simp add: sample_env_def sample_url_parse_def)
  have e: "buildProxyConfig strict_env ''socks5://5.6.7.8:1080'' =
     Inl (TypeError ''SocksProxyAgent'')"
    using buildProxyConfig_result [of strict_env "''socks5://5.6.7.8:1080''"]
    by (simp add: strict_env_def sample_url_parse_def)
  have f: "buildProxyConfig sample_env ''ftp://1.2.3.4:21'' = Inr Null"
    using buildProxyConfig_result [of sample_env "''ftp://1.2.3.4:21''"]
    by (simp add: sample_env_def sample_url_parse_def)
  have g: "buildProxyConfig sample_env ''http://xn--a:80'' = Inl (TypeError ''Invalid URL'')"
    using buildProxyConfig_result [of sample_env "''http://xn--a:80''"]
    by (simp add: sample_env_def sample_url_parse_def)
  from a b c d e f g show ?thesis by (intro conjI)
qed

subsection \<open>C2: the browser identifier over the ticks of a loop\<close>

text \<open>
  Claim C2 as stated does not hold. In the loop of a session whose payload has no
  \<^verbatim>\<open>browser_id\<close>, the first and the second heartbeat carry different identifiers
  as soon as the random source delivers different bytes: \<open>sendPing\<close> draws a new
  identifier at every call and stores none.
\<close>

theorem browserId_not_stable_counterexample:
  "map ping_browser_id
     (pings_sent (run_ticks sample_env Config (\<lambda>k. PingFulfilled) 2 sample_loop))
     = [JStr ''0000000000000000'', JStr ''0101010101010101'']"
  using run_ticks_pings [OF sample_loop_of_interval sample_timer_active,
      of sample_env sample_account Config "\<lambda>k. PingFulfilled" 2] sample_agent_built
  by (simp add: sample_loop_def sample_loop_of_pings sample_loop_of_rand sample_timer_def
      sample_account_def hex_zero hex_one upt_rec)

text \<open>
  Claim C2, amended. In a heartbeat loop whose requests get past the proxy string, when
  the session payload carries a truthy \<^verbatim>\<open>browser_id\<close> every tick sends that value;
  when the payload omits it, every tick sends an identifier of its own, the 16
  hexadecimal digits of 8 random bytes drawn at that tick, so that two ticks agree only
  where the random source repeats itself.
\<close>

theorem browserId_per_tick:
  assumes "interval w = Some t" and "\<not> cleared t" and "pings_sent w = []"
    and "agent_built e (cl_proxy (callback t))"
    and "a = cl_accountInfo (callback t)"
  shows "(truthy (browser_id a) \<longrightarrow>
            map ping_browser_id (pings_sent (run_ticks e cfg replies n w)) =
              replicate n (browser_id a))
       \<and> (\<not> truthy (browser_id a) \<longrightarrow>
            map ping_browser_id (pings_sent (run_ticks e cfg replies n w)) =
              map (\<lambda>k. fresh_hex (rand w)
                          (rpos w + k * ((if truthy (uid a) then 0 else 8) + 8)
                           + (if truthy (uid a) then 0 else 8)))
                  [0 ..< n])
       \<and> fresh_hex (rand w) k = JStr (toString_hex (map (rand w) [k ..< k + 8]))
       \<and> length (toString_hex (map (rand w) [k ..< k + 8])) = 16"
  using run_ticks_pings [OF assms(1,2,4), of cfg replies n] assms(3,5)
  by (simp add: map_replicate_const fresh_hex_def length_toString_hex)

text \<open>
  Claim C2, amended, on two ticks of the sample loop: without \<^verbatim>\<open>browser_id\<close> in the
  payload the two identifiers are the two draws, with it both are the payload's value.
\<close>

theorem browserId_per_tick_witness:
  "map ping_browser_id
     (pings_sent (run_ticks sample_env Config (\<lambda>k. PingRejected (Error ''timeout'')) 2
                    (sample_loop_of sample_account)))
     = [JStr ''0000000000000000'', JStr ''0101010101010101'']
   \<and> map ping_browser_id
     (pings_sent (run_ticks sample_env Config (\<lambda>k. PingRejected (Error ''timeout'')) 2
                    (sample_loop_of sample_account_b)))
     = [JStr ''b1'', JStr ''b1'']"
proof -
  have c: "cl_proxy (callback (sample_timer a)) = ''http://1.2.3.4:8080''"
          "cl_accountInfo (callback (sample_timer a)) = a" for a
    by (simp_all add: sample_timer_def)
  have "map ping_browser_id
     (pings_sent (run_ticks sample_env Config (\<lambda>k. PingRejected (Error ''timeout'')) 2
                    (sample_loop_of sample_account)))
     = [JStr ''0000000000000000'', JStr ''0101010101010101'']"
    using browserId_per_tick [OF sample_loop_of_interval sample_timer_active
        sample_loop_of_pings, of sample_env sample_account sample_account Config
        "\<lambda>k. PingRejected (Error ''timeout'')" 2 0] sample_agent_built
    by (simp add: c sample_loop_of_rand sample_account_def hex_zero hex_one upt_rec)
  moreover have "map ping_browser_id
     (pings_sent (run_ticks sample_env Config (\<lambda>k. PingRejected (Error ''timeout'')) 2
                    (sample_loop_of sample_account_b)))
     = [JStr ''b1'', JStr ''b1'']"
    using browserId_per_tick [OF sample_loop_of_interval sample_timer_active
        sample_loop_of_pings, of sample_env sample_account_b sample_account_b Config
        "\<lambda>k. PingRejected (Error ''timeout'')" 2 0] sample_agent_built
    by (simp add: c sample_account_b_def numeral_2_eq_2)
  ultimately show ?thesis by simp
qed

subsection \<open>C3: the number of session requests\<close>

text \<open>
  Claim C3 as stated does not hold. A proxy entry with the scheme \<^verbatim>\<open>ftp\<close> is not
  parsed into connection parameters, yet its session request is made (with the agent
  property set to \<^verbatim>\<open>null\<close>): one attempt, no parsed entry.
\<close>

theorem session_attempts_counterexample:
  "session_attempts (main sample_env [''tok123''] [''ftp://1.2.3.4:21'']
      (\<lambda>i. SessionRejected (Error ''refused'')) sample_world) = 1
   \<and> length (filter (spec_successfully_parsed sample_env) (readLines [''ftp://1.2.3.4:21''])) = 0"
  by (simp add: session_attempts_def main_def readLines_def trim_printable printable_def
      connect_defs spec_successfully_parsed_def agentFor_def buildProxyConfig_def
      sample_env_def sample_url_parse_def sample_world_def Config_def)

text \<open>
  Claim C3, amended. For every credential and every list of proxy entries, the number of
  session requests made equals the number of proxy entries, trimmed, at which lines
  125-127 do not throw: the entries that are empty, and those on which
  \<^verbatim>\<open>url.parse\<close> does not throw and, where it reports the protocol \<^verbatim>\<open>socks5:\<close>,
  the agent constructor does not throw either. An entry that \<open>buildProxyConfig\<close> does not
  recognise gets its session request like any other. Where neither \<^verbatim>\<open>url.parse\<close> nor
  the constructor ever throws, that is the number of lines of the proxy file.
\<close>

theorem session_attempts_eq:
  assumes "trace w0 = []" and "token_txt \<noteq> []"
  shows "session_attempts (main e token_txt proxy_txt replies w0) =
           length (filter (agent_built e) (readLines proxy_txt))
       \<and> (\<forall>p. agent_built e p =
                (p = [] \<or>
                 (case url_parse e p of
                    Inl err \<Rightarrow> False
                  | Inr u \<Rightarrow> url_protocol u = Some ''socks5:'' \<longrightarrow>
                             newSocksProxyAgent e p = None)))
       \<and> ((\<forall>p. \<exists>u. url_parse e p = Inr u) \<and> (\<forall>p. newSocksProxyAgent e p = None) \<longrightarrow>
            session_attempts (main e token_txt proxy_txt replies w0) = length proxy_txt)"
proof -
  have char: "agent_built e p =
                (p = [] \<or>
                 (case url_parse e p of
                    Inl err \<Rightarrow> False
                  | Inr u \<Rightarrow> url_protocol u = Some ''socks5:'' \<longrightarrow>
                             newSocksProxyAgent e p = None))" for p
    by (auto simp: agent_built_def agentFor_def buildProxyConfig_def
        split: sum.splits option.splits)
  have eq: "session_attempts (main e token_txt proxy_txt replies w0) =
           length (filter (agent_built e) (readLines proxy_txt))"
  proof (cases "proxy_txt = []")
    case True
    then show ?thesis using assms
      by (simp add: main_no_proxies session_attempts_def readLines_def)
  next
    case False
    let ?prs = "zip (map trim proxy_txt) (map replies [0 ..< length proxy_txt])"
    have fst: "map fst ?prs = map trim proxy_txt"
      by (simp add: map_fst_zip)
    have "session_attempts (main e token_txt proxy_txt replies w0) =
            length (filter is_session_post
              (concat (map trace (map (task e Config (trim (hd token_txt)) w0) ?prs))))"
      using False assms(2) by (simp add: main_started session_attempts_def)
    also have "\<dots> = length (filter (agent_built e) (map fst ?prs))"
      using assms(1) by (simp only: count_session_posts) simp
    finally show ?thesis by (simp only: fst readLines_def)
  qed
  have all: "session_attempts (main e token_txt proxy_txt replies w0) = length proxy_txt"
    if "\<forall>p. \<exists>u. url_parse e p = Inr u" and "\<forall>p. newSocksProxyAgent e p = None"
  proof -
    have "agent_built e p" for p
      using that(1) [rule_format, of p] that(2) by (auto simp: char)
    then have "filter (agent_built e) (readLines proxy_txt) = readLines proxy_txt"
      by simp
    then show ?thesis using eq by (simp add: readLines_def)
  qed
  from eq char all show ?thesis by blast
qed

text \<open>
  Claim C3, amended, on three proxy files: three lines of which none is a proxy that
  \<open>buildProxyConfig\<close> recognises, three session requests; two lines with a constructor
  that throws on the first, one request; one line on which \<^verbatim>\<open>url.parse\<close> throws, no
  request.
\<close>

theorem session_attempts_eq_witness:
  "session_attempts (main sample_env [''tok123''] [''ftp://1.2.3.4:21'', '''', ''hello'']
      (\<lambda>i. SessionRejected (Error ''refused'')) sample_world) = 3
   \<and> session_attempts (main strict_env [''tok123'']
      [''socks5://5.6.7.8:1080'', ''http://1.2.3.4:8080'']
      (\<lambda>i. SessionRejected (Error ''refused'')) sample_world) = 1
   \<and> session_attempts (main sample_env [''tok123''] [''http://xn--a:80'']
      (\<lambda>i. SessionRejected (Error ''refused'')) sample_world) = 0"
proof -
  have t: "trace sample_world = []" by (simp add: sample_world_def)
  have n: "[''tok123''] \<noteq> []" by simp
  have a: "session_attempts (main sample_env [''tok123''] [''ftp://1.2.3.4:21'', '''', ''hello'']
      (\<lambda>i. SessionRejected (Error ''refused'')) sample_world) = 3"
    using session_attempts_eq [OF t n, of sample_env "[''ftp://1.2.3.4:21'', '''', ''hello'']"
        "\<lambda>i. SessionRejected (Error ''refused'')"]
    by (simp add: readLines_def trim_Nil trim_printable printable_def sample_env_def
        sample_url_parse_def)
  have b: "session_attempts (main strict_env [''tok123'']
      [''socks5://5.6.7.8:1080'', ''http://1.2.3.4:8080'']
      (\<lambda>i. SessionRejected (Error ''refused'')) sample_world) = 1"
    using session_attempts_eq [OF t n, of strict_env
        "[''socks5://5.6.7.8:1080'', ''http://1.2.3.4:8080'']"
        "\<lambda>i. SessionRejected (Error ''refused'')"]
    by (simp add: readLines_def trim_printable printable_def strict_env_def
        sample_url_parse_def)
  have c: "session_attempts (main sample_env [''tok123''] [''http://xn--a:80'']
      (\<lambda>i. SessionRejected (Error ''refused'')) sample_world) = 0"
    using session_attempts_eq [OF t n, of sample_env "[''http://xn--a:80'']"
        "\<lambda>i. SessionRejected (Error ''refused'')"]
    by (simp add: readLines_def trim_printable printable_def sample_env_def
        sample_url_parse_def)
  from a b c show ?thesis by (intro conjI)
qed

subsection \<open>C4: a failed heartbeat tick\<close>

text \<open>
  Claim C4. When the timer fires and the heartbeat request is rejected, the failure is
  logged (the last two effects of the firing), the timer stays armed and is in exactly the
  state a successful tick leaves it in, so that its next firing is due one period later
  either way; the firing makes one request and no second one. Over any number \<open>n\<close> of
  periods and whatever the replies, the timer has fired \<open>n\<close> times, is still armed,
  and has made \<open>n\<close> requests (none where the agent constructor throws). The times are
  the nominal ones of \<^verbatim>\<open>setInterval\<close>, counted in periods from the timer's creation.
\<close>

theorem failed_tick_keeps_schedule:
  assumes "interval w = Some t" and "\<not> cleared t"
  shows "interval (fire e cfg (PingRejected err) w) = Some (t\<lparr> elapsed := elapsed t + delay t \<rparr>)
       \<and> interval (fire e cfg (PingRejected err) w) = interval (fire e cfg PingFulfilled w)
       \<and> trace (fire e cfg (PingRejected err) w) =
           trace w @
           (case agentFor e (cl_proxy (callback t)) of
              Inl err' \<Rightarrow> [ConsoleLog (ErrorWithProxy err'),
                            LoggerError (ProxyErrorRecord err' (cl_proxy (callback t)))]
            | Inr agent \<Rightarrow>
                [AxiosPost (pingURL cfg) (PingBody (built_pingData (cl_accountInfo (callback t)) w))
                   \<lparr> headers = mkHeaders (cl_token (callback t)) (cl_userAgent (callback t)),
                     httpAgent = agent \<rparr>,
                 ConsoleLog (ErrorWithProxy err),
                 LoggerError (ProxyErrorRecord err (cl_proxy (callback t)))])
       \<and> interval (run_ticks e cfg replies n w) = Some (t\<lparr> elapsed := elapsed t + n * delay t \<rparr>)
       \<and> length (pings_sent (run_ticks e cfg replies n w)) =
           length (pings_sent w) + (if agent_built e (cl_proxy (callback t)) then n else 0)"
proof (intro conjI)
  show "interval (fire e cfg (PingRejected err) w) = Some (t\<lparr> elapsed := elapsed t + delay t \<rparr>)"
    using assms by (rule fire_interval)
  show "interval (fire e cfg (PingRejected err) w) = interval (fire e cfg PingFulfilled w)"
    using assms by (simp add: fire_interval)
  show "interval (run_ticks e cfg replies n w) = Some (t\<lparr> elapsed := elapsed t + n * delay t \<rparr>)"
    using assms by (rule run_ticks_interval)
  show "length (pings_sent (run_ticks e cfg replies n w)) =
           length (pings_sent w) + (if agent_built e (cl_proxy (callback t)) then n else 0)"
    using assms by (rule run_ticks_pings_count)
  show "trace (fire e cfg (PingRejected err) w) =
           trace w @
           (case agentFor e (cl_proxy (callback t)) of
              Inl err' \<Rightarrow> [ConsoleLog (ErrorWithProxy err'),
                            LoggerError (ProxyErrorRecord err' (cl_proxy (callback t)))]
            | Inr agent \<Rightarrow>
                [AxiosPost (pingURL cfg) (PingBody (built_pingData (cl_accountInfo (callback t)) w))
                   \<lparr> headers = mkHeaders (cl_token (callback t)) (cl_userAgent (callback t)),
                     httpAgent = agent \<rparr>,
                 ConsoleLog (ErrorWithProxy err),
                 LoggerError (ProxyErrorRecord err (cl_proxy (callback t)))])"
    by (cases "agentFor e (cl_proxy (callback t))")
       (simp_all add: fire_active [OF assms] sendPing_trace_throw sendPing_trace_rejected
          built_pingData_def)
qed

text \<open>
  Claim C4 on the sample loop: after one failed tick the timer stands at 30000 ms, armed,
  as after a successful one; after three failed ticks at 90000 ms, with three requests
  made.
\<close>

theorem failed_tick_keeps_schedule_witness:
  "map_option elapsed (interval (fire sample_env Config (PingRejected (Error ''timeout'')) sample_loop))
     = Some 30000
   \<and> map_option cleared (interval (fire sample_env Config (PingRejected (Error ''timeout'')) sample_loop))
     = Some False
   \<and> interval (fire sample_env Config (PingRejected (Error ''timeout'')) sample_loop)
     = interval (fire sample_env Config PingFulfilled sample_loop)
   \<and> map_option elapsed
       (interval (run_ticks sample_env Config (\<lambda>k. PingRejected (Error ''timeout'')) 3 sample_loop))
     = Some 90000
   \<and> length (pings_sent
       (run_ticks sample_env Config (\<lambda>k. PingRejected (Error ''timeout'')) 3 sample_loop)) = 3"
proof -
  have iv: "interval sample_loop = Some (sample_timer sample_account)"
    by (simp add: sample_loop_def sample_loop_of_interval)
  have p: "pings_sent sample_loop = []"
    by (simp add: sample_loop_def sample_loop_of_pings)
  have c: "cl_proxy (callback (sample_timer sample_account)) = ''http://1.2.3.4:8080''"
    by (simp add: sample_timer_def)
  have d: "delay (sample_timer sample_account) = 30000" "elapsed (sample_timer sample_account) = 0"
    by (simp_all add: sample_timer_def)
  show ?thesis
    using failed_tick_keeps_schedule [OF iv sample_timer_active, of sample_env Config
        "Error ''timeout''" "\<lambda>k. PingRejected (Error ''timeout'')" 3] sample_agent_built
    by (auto simp: p c d sample_timer_active)
qed

subsection \<open>C5: the heartbeat body\<close>

text \<open>
  Claim C5 as stated does not hold. For a session identity whose \<^verbatim>\<open>uid\<close> is the empty
  string, the \<^verbatim>\<open>id\<close> sent is not that \<^verbatim>\<open>uid\<close> but a random identifier: line 137
  falls back to random bytes whenever the \<^verbatim>\<open>uid\<close> is falsy.
\<close>

theorem ping_id_counterexample:
  "map ping_id (pings_sent (snd (sendPing sample_env Config
      \<lparr> uid = JStr [], name = JStr ''n1'', browser_id = JStr ''b1'' \<rparr>
      ''tok123'' userAgent0 ''http://1.2.3.4:8080'' PingFulfilled sample_world)))
     = [JStr ''0000000000000000'']"
  using sample_agent_built
  by (simp add: pings_sent_sendPing built_pingData_def sample_world_pings sample_world_rand
      hex_zero)

text \<open>
  Claim C5, amended. For every heartbeat tick that gets past the proxy string, the first
  effect is one request to the ping endpoint whose body is exactly the four fields
  \<^verbatim>\<open>id\<close>, \<^verbatim>\<open>browser_id\<close>, \<^verbatim>\<open>timestamp\<close> and \<^verbatim>\<open>version\<close>, where
  \<^verbatim>\<open>id\<close> is the session's \<^verbatim>\<open>uid\<close> when that is truthy and a fresh random
  identifier of 16 hexadecimal digits otherwise (and likewise \<^verbatim>\<open>browser_id\<close>),
  \<^verbatim>\<open>timestamp\<close> is the clock reading taken when the body is built, in whole seconds,
  and \<^verbatim>\<open>version\<close> is \<^verbatim>\<open>2.2.7\<close>; the tick makes no other request.
\<close>

theorem ping_body:
  assumes "agentFor e proxy = Inr agent"
  shows "\<exists>rest.
           trace (snd (sendPing e cfg a token ua proxy reply w)) =
             trace w @
             AxiosPost (pingURL cfg)
               (PingBody \<lparr> ping_id = (if truthy (uid a) then uid a else fresh_hex (rand w) (rpos w)),
                           ping_browser_id =
                             (if truthy (browser_id a) then browser_id a
                              else fresh_hex (rand w) (if truthy (uid a) then rpos w else rpos w + 8)),
                           ping_timestamp = clock w (cpos w) div 1000,
                           ping_version = ''2.2.7'' \<rparr>)
               \<lparr> headers = mkHeaders token ua, httpAgent = agent \<rparr> # rest
           \<and> List.map_filter ping_of rest = []"
  using assms
  by (cases reply)
     (simp_all add: sendPing_trace_rejected sendPing_trace_fulfilled built_pingData_def
        List.map_filter_def)

text \<open>
  Claim C5, amended, on the first tick of the sample session: the \<^verbatim>\<open>id\<close> is the
  session's \<^verbatim>\<open>uid\<close> and the time stamp is the clock's 1700000000000 ms in seconds.
\<close>

theorem ping_body_witness:
  "\<exists>rest.
     trace (snd (sendPing sample_env Config sample_account ''tok123'' userAgent0
                   ''http://1.2.3.4:8080'' PingFulfilled sample_world)) =
       AxiosPost ''http://13.215.134.222/api/network/ping''
         (PingBody \<lparr> ping_id = JStr ''u1'', ping_browser_id = JStr ''0000000000000000'',
                     ping_timestamp = 1700000000, ping_version = ''2.2.7'' \<rparr>)
         \<lparr> headers = mkHeaders ''tok123'' userAgent0,
           httpAgent = Some (HttpProxy \<lparr> host = Some ''1.2.3.4'', port = Num False (Finite 8080),
                                         protocol = ''http'' \<rparr>) \<rparr> # rest"
  using ping_body [OF sample_agentFor, of Config sample_account "''tok123''" userAgent0
      PingFulfilled sample_world]
  by (auto simp: sample_account_def sample_world_def hex_zero Config_def)

subsection \<open>C6: empty input files\<close>

text \<open>
  Claim C6. If the credential file yields no line, the run prints that no tokens were
  found and returns; if it yields a line and the proxy file yields none, the run prints
  that no proxies were found and returns. In both cases no task is started and no
  session request is made. (The credential file is examined first.)
\<close>

theorem empty_input_aborts:
  "(readLines token_txt = [] \<longrightarrow>
      main e token_txt proxy_txt replies w0 = \<lparr> console = [NoTokensFound], tasks = [] \<rparr>)
   \<and> (readLines token_txt \<noteq> [] \<and> readLines proxy_txt = [] \<longrightarrow>
      main e token_txt proxy_txt replies w0 = \<lparr> console = [NoProxiesFound], tasks = [] \<rparr>)
   \<and> (readLines token_txt = [] \<or> readLines proxy_txt = [] \<longrightarrow>
      tasks (main e token_txt proxy_txt replies w0) = []
      \<and> session_attempts (main e token_txt proxy_txt replies w0) = 0)"
  by (auto simp: main_def Let_def session_attempts_def)

text \<open>Claim C6 on an empty credential file, and on an empty proxy file.\<close>

theorem empty_input_aborts_witness:
  "main sample_env [] [''http://1.2.3.4:8080''] (\<lambda>i. SessionBodyNullish) sample_world =
     \<lparr> console = [NoTokensFound], tasks = [] \<rparr>
   \<and> main sample_env [''tok123''] [] (\<lambda>i. SessionBodyNullish) sample_world =
     \<lparr> console = [NoProxiesFound], tasks = [] \<rparr>
   \<and> session_attempts (main sample_env [''tok123''] [] (\<lambda>i. SessionBodyNullish) sample_world) = 0"
  using empty_input_aborts [where token_txt = "[]" and e = sample_env
      and proxy_txt = "[''http://1.2.3.4:8080'']" and replies = "\<lambda>i. SessionBodyNullish"
      and ?w0.0 = sample_world]
    empty_input_aborts [where token_txt = "[''tok123'']" and e = sample_env
      and proxy_txt = "[]" and replies = "\<lambda>i. SessionBodyNullish" and ?w0.0 = sample_world]
  by (auto simp: readLines_def)

subsection \<open>C7: the active credential\<close>

text \<open>
  Claim C7 as stated does not hold. For a credential file whose first line is empty and
  whose second line is \<^verbatim>\<open>tok123\<close>, the session request carries the header
  \<^verbatim>\<open>Authorization: Bearer \<close> with the empty first line, not the first non-empty line:
  \<open>readLines\<close> keeps empty lines and the main logic takes \<^verbatim>\<open>tokens[0]\<close>.
\<close>

theorem first_nonempty_line_counterexample:
  "map post_headers
     (tasks (main sample_env ['''', ''tok123''] [''http://1.2.3.4:8080'']
               (\<lambda>i. SessionRejected (Error ''refused'')) sample_world))
     = [[[(''Authorization'', ''Bearer ''),
          (''Content-Type'', ''application/json''),
          (''User-Agent'', ''Mozilla/5.0 ... Safari/537.3''),
          (''Accept'', ''application/json'')]]]"
proof -
  have "post_headers sample_world = []"
    by (simp add: post_headers_def sample_world_def List.map_filter_def)
  then show ?thesis
    using sample_agent_built
    by (simp add: main_started task_post_headers trim_Nil trim_printable printable_def
        mkHeaders_def userAgent0_def)
qed

text \<open>
  Claim C7, amended. For every credential file that yields at least one line, the single
  active credential is the first line of the file with surrounding white space removed,
  be it empty or not: every session request and every heartbeat request of every task,
  over any number of ticks, carries the headers built from it.
\<close>

theorem active_credential_is_first_line:
  assumes "token_txt \<noteq> []" and "trace w0 = []" and "interval w0 = None"
    and "tw \<in> set (tasks (main e token_txt proxy_txt replies w0))"
  shows "set (post_headers (run_ticks e cfg pings n tw)) \<subseteq>
           {mkHeaders (trim (hd token_txt)) userAgent0}"
proof -
  have ne: "proxy_txt \<noteq> []"
    using assms(1,4) by (cases proxy_txt) (auto simp: main_no_proxies)
  from assms(4) obtain pr where tw: "tw = task e Config (trim (hd token_txt)) w0 pr"
    using assms(1) ne by (auto simp: main_started)
  have h0: "post_headers w0 = []"
    using assms(2) by (simp add: post_headers_def List.map_filter_def)
  have h1: "set (post_headers tw) \<subseteq> {mkHeaders (trim (hd token_txt)) userAgent0}"
    by (auto simp: tw task_post_headers h0)
  have h2: "(case interval tw of None \<Rightarrow> {}
             | Some t \<Rightarrow> {mkHeaders (cl_token (callback t)) (cl_userAgent (callback t))})
            \<subseteq> {mkHeaders (trim (hd token_txt)) userAgent0}"
  proof (cases "interval tw")
    case None
    then show ?thesis by simp
  next
    case (Some t)
    then show ?thesis
      using task_callback_token [OF assms(3), of e Config "trim (hd token_txt)" pr t]
      by (simp add: tw)
  qed
  show ?thesis
    using run_ticks_post_headers [of e cfg pings n tw] h1 h2 by blast
qed

text \<open>
  Claim C7, amended, on a credential file whose only line is \<^verbatim>\<open>tok123\<close> between
  white space, some of it outside ASCII (U+00A0 in front, U+FEFF behind): the session
  request and two heartbeats of the sample task carry the headers of \<^verbatim>\<open>tok123\<close>.
\<close>

theorem active_credential_is_first_line_witness:
  "set (post_headers
         (run_ticks sample_env Config (\<lambda>k. PingFulfilled) 2 (sample_loop_of sample_account)))
     \<subseteq> {mkHeaders ''tok123'' userAgent0}
   \<and> length (post_headers
         (run_ticks sample_env Config (\<lambda>k. PingFulfilled) 2 (sample_loop_of sample_account))) = 3
   \<and> sample_loop_of sample_account
      \<in> set (tasks (main sample_env
                 [[CHR 0xC2, CHR 0xA0] @ '' tok123 '' @ [CHR 0xEF, CHR 0xBB, CHR 0xBF, CHR 0x0D]]
                 [''http://1.2.3.4:8080''] (\<lambda>i. SessionData (Some sample_account))
                 sample_world))"
proof -
  let ?line = "[CHR 0xC2, CHR 0xA0] @ '' tok123 '' @ [CHR 0xEF, CHR 0xBB, CHR 0xBF, CHR 0x0D]"
  have n: "[?line] \<noteq> []" by simp
  have hd: "trim (hd [?line]) = ''tok123''"
    using trim_nbsp_bom by simp
  have p: "trim ''http://1.2.3.4:8080'' = ''http://1.2.3.4:8080''"
    by (simp add: trim_printable printable_def)
  have m: "sample_loop_of sample_account
           \<in> set (tasks (main sample_env [?line] [''http://1.2.3.4:8080'']
                 (\<lambda>i. SessionData (Some sample_account)) sample_world))"
  proof -
    have "main sample_env [?line] [''http://1.2.3.4:8080'']
            (\<lambda>i. SessionData (Some sample_account)) sample_world =
          \<lparr> console = [],
            tasks = map (task sample_env Config (trim (hd [?line])) sample_world)
                      (zip (map trim [''http://1.2.3.4:8080''])
                         (map (\<lambda>i. SessionData (Some sample_account))
                            [0 ..< length [''http://1.2.3.4:8080'']])) \<rparr>"
      by (rule main_started) simp_all
    then have "tasks (main sample_env [?line] [''http://1.2.3.4:8080'']
            (\<lambda>i. SessionData (Some sample_account)) sample_world) =
          [sample_loop_of sample_account]"
      by (simp only: hd) (simp add: p sample_loop_of_def)
    then show ?thesis by simp
  qed
  have t: "trace sample_world = []" and i: "interval sample_world = None"
    by (simp_all add: sample_world_def)
  have "set (post_headers
         (run_ticks sample_env Config (\<lambda>k. PingFulfilled) 2 (sample_loop_of sample_account)))
     \<subseteq> {mkHeaders (trim (hd [?line])) userAgent0}"
    using active_credential_is_first_line [OF n t i m, where cfg = Config
        and pings = "\<lambda>k. PingFulfilled" and n = 2] .
  then have 1: "set (post_headers
         (run_ticks sample_env Config (\<lambda>k. PingFulfilled) 2 (sample_loop_of sample_account)))
     \<subseteq> {mkHeaders ''tok123'' userAgent0}"
    by (simp only: hd)
  have 2: "length (post_headers
         (run_ticks sample_env Config (\<lambda>k. PingFulfilled) 2 (sample_loop_of sample_account))) = 3"
  proof -
    have "post_headers (sample_loop_of sample_account) = [mkHeaders ''tok123'' userAgent0]"
      by (simp add: sample_loop_of_eq post_headers_def List.map_filter_def)
    then show ?thesis
      using sample_agent_built
      by (simp add: numeral_2_eq_2 fire_def timer_callback_eq post_headers_sendPing
          sendPing_interval sample_loop_of_interval sample_timer_def
          post_headers_interval_update)
  qed
  from 1 2 m show ?thesis by (intro conjI)
qed

subsection \<open>C8: isolation of the proxy entries\<close>

text \<open>
  Claim C8. Every proxy entry gets a task. Take the entry \<open>Q\<close> at position \<open>j\<close>, one
  at which lines 125-127 do not throw. Whatever the other entries are and however their
  session requests end, \<open>Q\<close>'s session request is made, with the credential and \<open>Q\<close>'s
  agent; if it is answered with a session, the connection is reported and \<open>Q\<close>'s timer
  is armed with the period of the configuration; if not, the rejection is reported and no
  timer is armed. The task is the same, effect for effect, in every run that agrees on
  \<open>Q\<close> and on the answer to \<open>Q\<close>'s request; started in the world that the task of
  any entry \<open>P\<close> has left, whatever \<open>P\<close>'s answer was, it adds these same effects; and
  the promise of \<open>connect\<close> is fulfilled, never rejected, so that \<^verbatim>\<open>Promise.all\<close>
  waits for all tasks.
\<close>

theorem task_isolation:
  assumes "token_txt \<noteq> []" and "j < length proxy_txt" and "trace w0 = []"
    and "interval w0 = None" and "agentFor e (trim (proxy_txt ! j)) = Inr agent"
  shows "length (tasks (main e token_txt proxy_txt replies w0)) = length proxy_txt
       \<and> trace (tasks (main e token_txt proxy_txt replies w0) ! j) =
           AxiosPost (sessionURL Config) EmptyObject
             \<lparr> headers = mkHeaders (trim (hd token_txt)) userAgent0, httpAgent = agent \<rparr> #
           (case replies j of
              SessionRejected err \<Rightarrow>
                [ConsoleLog (Rejected (Error ''Session request failed'')),
                 LoggerError (RejectedRecord (Error ''Session request failed'')
                                (trim (proxy_txt ! j)))]
            | SessionBodyNullish \<Rightarrow>
                [ConsoleLog (Rejected (Error ''Session request failed'')),
                 LoggerError (RejectedRecord (Error ''Session request failed'')
                                (trim (proxy_txt ! j)))]
            | SessionData None \<Rightarrow>
                [ConsoleLog (Rejected (TypeError ''accountInfo.uid'')),
                 LoggerError (RejectedRecord (TypeError ''accountInfo.uid'')
                                (trim (proxy_txt ! j)))]
            | SessionData (Some a) \<Rightarrow>
                [ConsoleLog (Connected (uid a)),
                 LoggerInfo (SessionInformation (uid a) (name a) (trim (proxy_txt ! j) \<noteq> [])),
                 ProcessOnSIGINT])
       \<and> interval (tasks (main e token_txt proxy_txt replies w0) ! j) =
           (case replies j of
              SessionData (Some a) \<Rightarrow>
                Some \<lparr> delay = 30000, elapsed = 0, cleared = False,
                       callback = \<lparr> cl_accountInfo = a, cl_token = trim (hd token_txt),
                                    cl_userAgent = userAgent0,
                                    cl_proxy = trim (proxy_txt ! j) \<rparr> \<rparr>
            | _ \<Rightarrow> None)
       \<and> (\<forall>proxy_txt' replies'.
             length proxy_txt' = length proxy_txt \<and> proxy_txt' ! j = proxy_txt ! j
             \<and> replies' j = replies j \<longrightarrow>
             tasks (main e token_txt proxy_txt' replies' w0) ! j =
               tasks (main e token_txt proxy_txt replies w0) ! j)
       \<and> (\<forall>w P rP.
             trace (task e Config (trim (hd token_txt))
                      (task e Config (trim (hd token_txt)) w (P, rP))
                      (trim (proxy_txt ! j), replies j)) =
               trace (task e Config (trim (hd token_txt)) w (P, rP)) @
               trace (tasks (main e token_txt proxy_txt replies w0) ! j))
       \<and> fst (connect e Config (trim (hd token_txt)) (trim (proxy_txt ! j)) (replies j) w0)
           = Inr ()"
proof -
  let ?tok = "trim (hd token_txt)"
  let ?Q = "trim (proxy_txt ! j)"
  let ?tw = "tasks (main e token_txt proxy_txt replies w0) ! j"
  have ne: "proxy_txt \<noteq> []" using assms(2) by auto
  have tw: "?tw = task e Config ?tok w0 (?Q, replies j)"
    using assms(1,2) by (rule main_task_nth)
  have len: "length (tasks (main e token_txt proxy_txt replies w0)) = length proxy_txt"
    using assms(1) ne by (simp add: main_started)
  have tr: "trace ?tw =
           AxiosPost (sessionURL Config) EmptyObject
             \<lparr> headers = mkHeaders ?tok userAgent0, httpAgent = agent \<rparr> #
           (case replies j of
              SessionRejected err \<Rightarrow>
                [ConsoleLog (Rejected (Error ''Session request failed'')),
                 LoggerError (RejectedRecord (Error ''Session request failed'') ?Q)]
            | SessionBodyNullish \<Rightarrow>
                [ConsoleLog (Rejected (Error ''Session request failed'')),
                 LoggerError (RejectedRecord (Error ''Session request failed'') ?Q)]
            | SessionData None \<Rightarrow>
                [ConsoleLog (Rejected (TypeError ''accountInfo.uid'')),
                 LoggerError (RejectedRecord (TypeError ''accountInfo.uid'') ?Q)]
            | SessionData (Some a) \<Rightarrow>
                [ConsoleLog (Connected (uid a)),
                 LoggerInfo (SessionInformation (uid a) (name a) (?Q \<noteq> [])),
                 ProcessOnSIGINT])"
    using task_trace [OF assms(5), of Config ?tok w0 "replies j"] assms(3) by (simp add: tw)
  have iv: "interval ?tw =
           (case replies j of
              SessionData (Some a) \<Rightarrow>
                Some \<lparr> delay = 30000, elapsed = 0, cleared = False,
                       callback = \<lparr> cl_accountInfo = a, cl_token = ?tok,
                                    cl_userAgent = userAgent0, cl_proxy = ?Q \<rparr> \<rparr>
            | _ \<Rightarrow> None)"
    using assms(4,5)
    by (simp add: tw task_interval Config_def split: session_reply.splits option.splits)
  have same: "\<forall>proxy_txt' replies'.
             length proxy_txt' = length proxy_txt \<and> proxy_txt' ! j = proxy_txt ! j
             \<and> replies' j = replies j \<longrightarrow>
             tasks (main e token_txt proxy_txt' replies' w0) ! j = ?tw"
  proof (intro allI impI)
    fix proxy_txt' :: "string list" and replies' :: "nat \<Rightarrow> session_reply"
    assume h: "length proxy_txt' = length proxy_txt \<and> proxy_txt' ! j = proxy_txt ! j
               \<and> replies' j = replies j"
    then have "j < length proxy_txt'" using assms(2) by simp
    with assms(1) have "tasks (main e token_txt proxy_txt' replies' w0) ! j =
        task e Config ?tok w0 (trim (proxy_txt' ! j), replies' j)"
      by (rule main_task_nth)
    also have "\<dots> = task e Config ?tok w0 (?Q, replies j)" using h by simp
    finally show "tasks (main e token_txt proxy_txt' replies' w0) ! j = ?tw"
      by (simp only: tw)
  qed
  have frame: "\<forall>w P rP.
             trace (task e Config ?tok (task e Config ?tok w (P, rP)) (?Q, replies j)) =
               trace (task e Config ?tok w (P, rP)) @ trace ?tw"
  proof (intro allI)
    fix w P rP
    show "trace (task e Config ?tok (task e Config ?tok w (P, rP)) (?Q, replies j)) =
               trace (task e Config ?tok w (P, rP)) @ trace ?tw"
      unfolding tw using assms(3) by (rule task_trace_frame)
  qed
  have settled: "fst (connect e Config ?tok ?Q (replies j) w0) = Inr ()"
    by (rule connect_fst)
  from len tr iv same frame settled show ?thesis by (intro conjI)
qed

text \<open>
  Claim C8 on a proxy file of two entries. The second entry's session request is made, its
  session obtained and its timer armed although the first entry is not recognised and its
  session request is refused; the first entry's request is made and its refusal reported,
  with no timer, although the second entry's session is obtained.
\<close>

theorem task_isolation_witness:
  "trace (tasks (main sample_env [''tok123''] [''ftp://1.2.3.4:21'', ''http://1.2.3.4:8080'']
            (\<lambda>i. if i = 0 then SessionRejected (Error ''refused'')
                  else SessionData (Some sample_account)) sample_world) ! 1) =
       [AxiosPost (sessionURL Config) EmptyObject
          \<lparr> headers = mkHeaders ''tok123'' userAgent0,
            httpAgent = Some (HttpProxy \<lparr> host = Some ''1.2.3.4'', port = Num False (Finite 8080),
                                          protocol = ''http'' \<rparr>) \<rparr>,
        ConsoleLog (Connected (JStr ''u1'')),
        LoggerInfo (SessionInformation (JStr ''u1'') (JStr ''n1'') True),
        ProcessOnSIGINT]
   \<and> interval (tasks (main sample_env [''tok123''] [''ftp://1.2.3.4:21'', ''http://1.2.3.4:8080'']
            (\<lambda>i. if i = 0 then SessionRejected (Error ''refused'')
                  else SessionData (Some sample_account)) sample_world) ! 1) =
       Some (sample_timer sample_account)
   \<and> trace (tasks (main sample_env [''tok123''] [''ftp://1.2.3.4:21'', ''http://1.2.3.4:8080'']
            (\<lambda>i. if i = 0 then SessionRejected (Error ''refused'')
                  else SessionData (Some sample_account)) sample_world) ! 0) =
       [AxiosPost (sessionURL Config) EmptyObject
          \<lparr> headers = mkHeaders ''tok123'' userAgent0, httpAgent = Some Null \<rparr>,
        ConsoleLog (Rejected (Error ''Session request failed'')),
        LoggerError (RejectedRecord (Error ''Session request failed'') ''ftp://1.2.3.4:21'')]
   \<and> interval (tasks (main sample_env [''tok123''] [''ftp://1.2.3.4:21'', ''http://1.2.3.4:8080'']
            (\<lambda>i. if i = 0 then SessionRejected (Error ''refused'')
                  else SessionData (Some sample_account)) sample_world) ! 0) = None"
proof -
  let ?ps = "[''ftp://1.2.3.4:21'', ''http://1.2.3.4:8080'']"
  let ?rs = "\<lambda>i::nat. if i = 0 then SessionRejected (Error ''refused'')
                  else SessionData (Some sample_account)"
  have n: "[''tok123''] \<noteq> []" by simp
  have t: "trace sample_world = []" and i: "interval sample_world = None"
    by (simp_all add: sample_world_def)
  have tk: "trim (hd [''tok123'']) = ''tok123''"
    by (simp add: trim_printable printable_def)
  have q1: "trim (?ps ! 1) = ''http://1.2.3.4:8080''"
    and q0: "trim (?ps ! 0) = ''ftp://1.2.3.4:21''"
    by (simp_all add: trim_printable printable_def)
  have j1: "1 < length ?ps" and j0: "0 < length ?ps" by simp_all
  have a1: "agentFor sample_env (trim (?ps ! 1)) =
              Inr (Some (HttpProxy \<lparr> host = Some ''1.2.3.4'', port = Num False (Finite 8080),
                                      protocol = ''http'' \<rparr>))"
    by (simp only: q1 sample_agentFor)
  have a0: "agentFor sample_env (trim (?ps ! 0)) = Inr (Some Null)"
    unfolding q0
    by (simp add: agentFor_def buildProxyConfig_def sample_env_def sample_url_parse_def)
  note T1 = task_isolation [OF n j1 t i a1, of ?rs]
  note T0 = task_isolation [OF n j0 t i a0, of ?rs]
  have r1: "?rs 1 = SessionData (Some sample_account)"
    and r0: "?rs 0 = SessionRejected (Error ''refused'')" by simp_all
  from T1 [THEN conjunct2, THEN conjunct1]
  have 1: "trace (tasks (main sample_env [''tok123''] ?ps ?rs sample_world) ! 1) =
       [AxiosPost (sessionURL Config) EmptyObject
          \<lparr> headers = mkHeaders ''tok123'' userAgent0,
            httpAgent = Some (HttpProxy \<lparr> host = Some ''1.2.3.4'', port = Num False (Finite 8080),
                                          protocol = ''http'' \<rparr>) \<rparr>,
        ConsoleLog (Connected (JStr ''u1'')),
        LoggerInfo (SessionInformation (JStr ''u1'') (JStr ''n1'') True),
        ProcessOnSIGINT]"
    unfolding tk q1 r1 by (simp add: sample_account_def)
  from T1 [THEN conjunct2, THEN conjunct2, THEN conjunct1]
  have 2: "interval (tasks (main sample_env [''tok123''] ?ps ?rs sample_world) ! 1) =
       Some (sample_timer sample_account)"
    unfolding tk q1 r1 by (simp add: sample_timer_def)
  from T0 [THEN conjunct2, THEN conjunct1]
  have 3: "trace (tasks (main sample_env [''tok123''] ?ps ?rs sample_world) ! 0) =
       [AxiosPost (sessionURL Config) EmptyObject
          \<lparr> headers = mkHeaders ''tok123'' userAgent0, httpAgent = Some Null \<rparr>,
        ConsoleLog (Rejected (Error ''Session request failed'')),
        LoggerError (RejectedRecord (Error ''Session request failed'') ''ftp://1.2.3.4:21'')]"
    unfolding tk q0 r0 by simp
  from T0 [THEN conjunct2, THEN conjunct2, THEN conjunct1]
  have 4: "interval (tasks (main sample_env [''tok123''] ?ps ?rs sample_world) ! 0) = None"
    unfolding tk q0 r0 by simp
  from 1 2 3 4 show ?thesis by (intro conjI)
qed

subsection \<open>C9: the score of a heartbeat\<close>

text \<open>
  Claim C9 as stated does not hold for every heartbeat tick. A tick whose request is
  rejected is given no tag at all, neither \<open>Good\<close> nor \<open>Slow\<close>: the request is made,
  the \<^verbatim>\<open>catch\<close> of lines 179-183 logs an error, and no duration is measured.
\<close>

theorem rejected_tick_no_score_counterexample:
  "scores_logged (snd (sendPing sample_env Config sample_account ''tok123'' userAgent0
      ''http://1.2.3.4:8080'' (PingRejected (Error ''timeout'')) sample_world)) = []
   \<and> length (pings_sent (snd (sendPing sample_env Config sample_account ''tok123'' userAgent0
      ''http://1.2.3.4:8080'' (PingRejected (Error ''timeout'')) sample_world))) = 1"
proof -
  have t: "trace sample_world = []" by (simp add: sample_world_def)
  show ?thesis
    using sample_agent_built
    by (simp add: scores_logged_def sendPing_trace_rejected [OF sample_agentFor] t
        List.map_filter_def pings_sent_sendPing sample_world_pings)
qed

text \<open>
  Claim C9, amended. For every heartbeat tick whose request is made and fulfilled, with
  \<open>d\<close> the measured duration (the clock reading after the request minus the one before
  it), the result is tagged \<open>Good\<close> if \<open>d < 5000\<close> and \<open>Slow\<close> otherwise; either way
  it is printed and logged, \<open>sendPing\<close> returns normally, the tick made its one request
  and no other, and the timer is untouched. A tick whose request is rejected logs no
  duration and no tag.
\<close>

theorem ping_score:
  assumes "agentFor e proxy = Inr agent"
    and "d = clock w (cpos w + 2) - clock w (cpos w + 1)"
  shows "fst (sendPing e cfg a token ua proxy PingFulfilled w) = Inr ()
       \<and> interval (snd (sendPing e cfg a token ua proxy PingFulfilled w)) = interval w
       \<and> trace (snd (sendPing e cfg a token ua proxy PingFulfilled w)) =
           trace w @
           [AxiosPost (pingURL cfg) (PingBody (built_pingData a w))
              \<lparr> headers = mkHeaders token ua, httpAgent = agent \<rparr>,
            ConsoleLog (PingSent (ping_id (built_pingData a w))),
            ConsoleLog (ProxyUsed (if proxy \<noteq> [] then ''Proxy IP: undefined'' else ''No proxy'')
                          d (if d < 5000 then Good else Slow)),
            LoggerInfo (PingSentRecord (ping_id (built_pingData a w))
                          (ping_browser_id (built_pingData a w))
                          (if proxy \<noteq> [] then JUndefined else JStr ''No proxy'')
                          d (if d < 5000 then Good else Slow))]
       \<and> scores_logged (snd (sendPing e cfg a token ua proxy PingFulfilled w)) =
           scores_logged w @ [(d, if d < 5000 then Good else Slow)]
       \<and> scores_logged (snd (sendPing e cfg a token ua proxy (PingRejected err) w)) =
           scores_logged w"
  using assms
  by (simp add: sendPing_fst sendPing_interval sendPing_trace_fulfilled
      sendPing_trace_rejected scores_logged_def List.map_filter_def)

text \<open>
  Claim C9 on a request that takes 3000 ms, logged as \<open>Good\<close>, and on one that takes
  7000 ms, logged as \<open>Slow\<close>.
\<close>

theorem ping_score_witness:
  "last (trace (snd (sendPing sample_env Config sample_account ''tok123'' userAgent0 []
                       PingFulfilled sample_world))) =
     LoggerInfo (PingSentRecord (JStr ''u1'') (JStr ''0000000000000000'') (JStr ''No proxy'')
                   3000 Good)
   \<and> last (trace (snd (sendPing sample_env Config sample_account ''tok123'' userAgent0 []
                       PingFulfilled (sample_world\<lparr> clock := (\<lambda>k. 7000 * int k) \<rparr>)))) =
     LoggerInfo (PingSentRecord (JStr ''u1'') (JStr ''0000000000000000'') (JStr ''No proxy'')
                   7000 Slow)"
proof -
  have ag: "agentFor sample_env [] = Inr None" by (simp add: agentFor_def)
  have d1: "3000 = clock sample_world (cpos sample_world + 2)
                   - clock sample_world (cpos sample_world + 1)"
    by (simp add: sample_world_def)
  have d2: "7000 = clock (sample_world\<lparr> clock := (\<lambda>k. 7000 * int k) \<rparr>)
                     (cpos (sample_world\<lparr> clock := (\<lambda>k. 7000 * int k) \<rparr>) + 2)
                   - clock (sample_world\<lparr> clock := (\<lambda>k. 7000 * int k) \<rparr>)
                       (cpos (sample_world\<lparr> clock := (\<lambda>k. 7000 * int k) \<rparr>) + 1)"
    by (simp add: sample_world_def)
  show ?thesis
    using ping_score [OF ag d1, where cfg = Config and a = sample_account
        and token = "''tok123''" and ua = userAgent0]
      ping_score [OF ag d2, where cfg = Config and a = sample_account
        and token = "''tok123''" and ua = userAgent0]
    by (simp add: built_pingData_def sample_account_def sample_world_rand hex_zero)
qed

subsection \<open>C10: sendPing never throws\<close>

text \<open>
  Claim C10. For every input and every outcome of the request, \<open>sendPing\<close> returns
  normally. A rejected request is caught inside it and logged there, and so is a throw of
  the agent constructor; the timer callback therefore does what \<open>sendPing\<close> does and
  nothing more: its own handler (lines 101-104) is never reached.
\<close>

theorem sendPing_never_throws:
  "fst (sendPing e cfg a token ua proxy reply w) = Inr ()
   \<and> timer_callback e cfg c reply w =
       snd (sendPing e cfg (cl_accountInfo c) (cl_token c) (cl_userAgent c) (cl_proxy c) reply w)
   \<and> (\<forall>agent err. agentFor e proxy = Inr agent \<longrightarrow>
         trace (snd (sendPing e cfg a token ua proxy (PingRejected err) w)) =
           trace w @
           [AxiosPost (pingURL cfg) (PingBody (built_pingData a w))
              \<lparr> headers = mkHeaders token ua, httpAgent = agent \<rparr>,
            ConsoleLog (ErrorWithProxy err), LoggerError (ProxyErrorRecord err proxy)])
   \<and> (\<forall>err. agentFor e proxy = Inl err \<longrightarrow>
         trace (snd (sendPing e cfg a token ua proxy reply w)) =
           trace w @ [ConsoleLog (ErrorWithProxy err), LoggerError (ProxyErrorRecord err proxy)])"
  by (simp add: sendPing_fst timer_callback_eq sendPing_trace_rejected sendPing_trace_throw)

text \<open>
  Claim C10 on a request that is rejected, and on a tick at which the agent constructor
  throws: both are logged by \<open>sendPing\<close>, which returns normally.
\<close>

theorem sendPing_never_throws_witness:
  "fst (sendPing sample_env Config sample_account ''tok123'' userAgent0 []
          (PingRejected (Error ''socket hang up'')) sample_world) = Inr ()
   \<and> drop 1 (trace (snd (sendPing sample_env Config sample_account ''tok123'' userAgent0 []
          (PingRejected (Error ''socket hang up'')) sample_world))) =
       [ConsoleLog (ErrorWithProxy (Error ''socket hang up'')),
        LoggerError (ProxyErrorRecord (Error ''socket hang up'') [])]
   \<and> fst (sendPing strict_env Config sample_account ''tok123'' userAgent0
          ''socks5://5.6.7.8:1080'' PingFulfilled sample_world) = Inr ()
   \<and> trace (snd (sendPing strict_env Config sample_account ''tok123'' userAgent0
          ''socks5://5.6.7.8:1080'' PingFulfilled sample_world)) =
       [ConsoleLog (ErrorWithProxy (TypeError ''SocksProxyAgent'')),
        LoggerError (ProxyErrorRecord (TypeError ''SocksProxyAgent'') ''socks5://5.6.7.8:1080'')]"
proof -
  have ag: "agentFor sample_env [] = Inr None" by (simp add: agentFor_def)
  have t: "trace sample_world = []" by (simp add: sample_world_def)
  show ?thesis
    using sendPing_never_throws [where e = sample_env and cfg = Config and a = sample_account
        and token = "''tok123''" and ua = userAgent0 and proxy = "[]"
        and reply = "PingRejected (Error ''socket hang up'')" and w = sample_world]
      sendPing_never_throws [where e = strict_env and cfg = Config and a = sample_account
        and token = "''tok123''" and ua = userAgent0 and proxy = "''socks5://5.6.7.8:1080''"
        and reply = PingFulfilled and w = sample_world]
      ag t strict_agentFor
    by simp
qed

end
